theory Spec2Isabelle
  imports Complex_Main
begin

section \<open>JavaScript strings\<close>

text \<open>
  The repository holds two programs in \<^verbatim>\<open>windows/src/index.ts\<close>: the single-application
  program (one Discord client id, a fixed reconnect delay) and the multi-application
  program (one client id per application category, reconnect with backoff, debounced
  client switching). Both are embedded here; where a name of the source occurs in both,
  the definition taken from the single-application program carries the suffix
  \<open>_single\<close>.

  A JavaScript string is modelled as a \<^typ>\<open>string\<close>, one \<^typ>\<open>char\<close> per UTF-16
  code unit; the model covers the strings whose code units are below 256 (Latin-1), on
  which \<open>toLowerCase\<close> keeps the length.
\<close>

definition toLowerChar :: "char \<Rightarrow> char" where
  "toLowerChar c =
     (let n = (of_char c :: nat)
      in if (65 \<le> n \<and> n \<le> 90) \<or> (192 \<le> n \<and> n \<le> 222 \<and> n \<noteq> 215)
         then char_of (n + 32) else c)"

definition toLowerCase :: "string \<Rightarrow> string" where
  "toLowerCase s = map toLowerChar s"

text \<open>
  \<open>charAt(0).toUpperCase()\<close> of a single code unit. The sharp s becomes two code units.
  The micro sign and the y with diaeresis have their capitals outside Latin-1; they are
  left as they are (one code unit either way).
\<close>

definition toUpperChar :: "char \<Rightarrow> string" where
  "toUpperChar c =
     (let n = (of_char c :: nat)
      in if (97 \<le> n \<and> n \<le> 122) \<or> (224 \<le> n \<and> n \<le> 254 \<and> n \<noteq> 247)
         then [char_of (n - 32)]
         else if n = 223 then ''SS'' else [c])"

text \<open>\<open>s.charAt(0).toUpperCase() + s.slice(1)\<close>\<close>

definition capitalize :: "string \<Rightarrow> string" where
  "capitalize s = (case s of [] \<Rightarrow> [] | c # cs \<Rightarrow> toUpperChar c @ cs)"

fun startsWith :: "string \<Rightarrow> string \<Rightarrow> bool" where
  "startsWith s [] = True"
| "startsWith [] (p # ps) = False"
| "startsWith (c # cs) (p # ps) = (c = p \<and> startsWith cs ps)"

text \<open>\<open>s.includes(p)\<close>: \<open>p\<close> occurs in \<open>s\<close> as a contiguous run.\<close>

fun includesStr :: "string \<Rightarrow> string \<Rightarrow> bool" where
  "includesStr [] p = (p = [])"
| "includesStr (c # cs) p = (startsWith (c # cs) p \<or> includesStr cs p)"

text \<open>White space and line terminators below 256, as \<open>trim\<close> and \<open>\s\<close> read them.\<close>

definition isWhiteSpace :: "char \<Rightarrow> bool" where
  "isWhiteSpace c =
     (let n = (of_char c :: nat) in (9 \<le> n \<and> n \<le> 13) \<or> n = 32 \<or> n = 160)"

definition trim :: "string \<Rightarrow> string" where
  "trim s = rev (dropWhile isWhiteSpace (rev (dropWhile isWhiteSpace s)))"

text \<open>\<open>s.substring(0, n)\<close>\<close>

definition substring0 :: "nat \<Rightarrow> string \<Rightarrow> string" where
  "substring0 n s = take n s"

text \<open>\<open>s.split(sep)\<close> for a separator that is not empty.\<close>

fun splitAcc :: "string \<Rightarrow> nat \<Rightarrow> string \<Rightarrow> string \<Rightarrow> string list" where
  "splitAcc sep skip acc [] = [acc]"
| "splitAcc sep skip acc (c # cs) =
     (if 0 < skip then splitAcc sep (skip - 1) acc cs
      else if startsWith (c # cs) sep then acc # splitAcc sep (length sep - 1) [] cs
      else splitAcc sep 0 (acc @ [c]) cs)"

definition splitStr :: "string \<Rightarrow> string \<Rightarrow> string list" where
  "splitStr s sep = splitAcc sep 0 [] s"

text \<open>\<open>s.replace(pat, rep)\<close> with a string pattern: the first occurrence only.\<close>

fun replaceFirst :: "string \<Rightarrow> string \<Rightarrow> string \<Rightarrow> string" where
  "replaceFirst [] pat rep = (if pat = [] then rep else [])"
| "replaceFirst (c # cs) pat rep =
     (if startsWith (c # cs) pat then rep @ drop (length pat) (c # cs)
      else c # replaceFirst cs pat rep)"

text \<open>Numbers in template literals: a decimal integer, or \<open>NaN\<close>.\<close>

datatype jsnum = Num int | NaN

definition digit :: "nat \<Rightarrow> char" where
  "digit d = char_of (48 + d)"

fun showNat :: "nat \<Rightarrow> string" where
  "showNat n = (if n < 10 then [digit n] else showNat (n div 10) @ [digit (n mod 10)])"

definition showInt :: "int \<Rightarrow> string" where
  "showInt i = (if i < 0 then CHR ''-'' # showNat (nat (- i)) else showNat (nat i))"

definition showNum :: "jsnum \<Rightarrow> string" where
  "showNum x = (case x of Num i \<Rightarrow> showInt i | NaN \<Rightarrow> ''NaN'')"

section \<open>Regular expressions\<close>

text \<open>
  The regular expressions of the source are built from a few backtracking matchers in
  continuation-passing style: a matcher takes the continuation that matches the rest of
  the pattern, and the input that is left; it answers with the captured groups, or
  \<open>None\<close>. Alternatives are tried in the order in which the JavaScript engine tries them:
  a lazy quantifier tries the continuation before it takes one more character, a greedy
  one after.
\<close>

definition isDot :: "char \<Rightarrow> bool" where
  "isDot c = (c \<noteq> CHR 0x0A \<and> c \<noteq> CHR 0x0D)"

definition notDash :: "char \<Rightarrow> bool" where
  "notDash c = (c \<noteq> CHR ''-'')"

definition notPeriod :: "char \<Rightarrow> bool" where
  "notPeriod c = (c \<noteq> CHR ''.'')"

definition accept :: "string \<Rightarrow> unit option" where
  "accept s = Some ()"

text \<open>\<open>$\<close> without the multiline flag.\<close>

definition eos :: "string \<Rightarrow> unit option" where
  "eos s = (if s = [] then Some () else None)"

definition lit :: "string \<Rightarrow> (string \<Rightarrow> 'a option) \<Rightarrow> string \<Rightarrow> 'a option" where
  "lit p k s = (if startsWith s p then k (drop (length p) s) else None)"

text \<open>A literal under the \<open>i\<close> flag (for a pattern of ASCII letters).\<close>

definition litIgnoreCase :: "string \<Rightarrow> (string \<Rightarrow> 'a option) \<Rightarrow> string \<Rightarrow> 'a option" where
  "litIgnoreCase p k s =
     (if startsWith (toLowerCase s) (toLowerCase p) then k (drop (length p) s) else None)"

definition withCapture :: "string \<Rightarrow> 'a option \<Rightarrow> (string \<times> 'a) option" where
  "withCapture cap r = (case r of None \<Rightarrow> None | Some v \<Rightarrow> Some (cap, v))"

fun lazyMore :: "(char \<Rightarrow> bool) \<Rightarrow> (string \<Rightarrow> 'a option) \<Rightarrow> string \<Rightarrow> string \<Rightarrow> (string \<times> 'a) option" where
  "lazyMore p k cap [] = withCapture cap (k [])"
| "lazyMore p k cap (c # cs) =
     (case k (c # cs) of
        Some v \<Rightarrow> Some (cap, v)
      | None \<Rightarrow> if p c then lazyMore p k (cap @ [c]) cs else None)"

text \<open>\<open>(x+?)\<close>: a captured group of one or more characters of the class, as few as possible.\<close>

definition lazyPlus :: "(char \<Rightarrow> bool) \<Rightarrow> (string \<Rightarrow> 'a option) \<Rightarrow> string \<Rightarrow> (string \<times> 'a) option" where
  "lazyPlus p k s =
     (case s of [] \<Rightarrow> None | c # cs \<Rightarrow> if p c then lazyMore p k [c] cs else None)"

fun greedyMore :: "(char \<Rightarrow> bool) \<Rightarrow> (string \<Rightarrow> 'a option) \<Rightarrow> string \<Rightarrow> string \<Rightarrow> (string \<times> 'a) option" where
  "greedyMore p k cap [] = withCapture cap (k [])"
| "greedyMore p k cap (c # cs) =
     (if p c
      then (case greedyMore p k (cap @ [c]) cs of
              Some r \<Rightarrow> Some r
            | None \<Rightarrow> withCapture cap (k (c # cs)))
      else withCapture cap (k (c # cs)))"

text \<open>\<open>(x+)\<close>: a captured group of one or more characters of the class, as many as possible.\<close>

definition greedyPlus :: "(char \<Rightarrow> bool) \<Rightarrow> (string \<Rightarrow> 'a option) \<Rightarrow> string \<Rightarrow> (string \<times> 'a) option" where
  "greedyPlus p k s =
     (case s of [] \<Rightarrow> None | c # cs \<Rightarrow> if p c then greedyMore p k [c] cs else None)"

text \<open>\<open>x*\<close> without a group: zero or more characters of the class, as many as possible.\<close>

definition greedyStar :: "(char \<Rightarrow> bool) \<Rightarrow> (string \<Rightarrow> 'a option) \<Rightarrow> string \<Rightarrow> 'a option" where
  "greedyStar p k s = map_option snd (greedyMore p k [] s)"

text \<open>\<open>c?\<close>: the character once if the rest then matches, else not at all.\<close>

definition optChar :: "char \<Rightarrow> (string \<Rightarrow> 'a option) \<Rightarrow> string \<Rightarrow> 'a option" where
  "optChar c k s =
     (case s of
        [] \<Rightarrow> k []
      | d # ds \<Rightarrow> if d = c then (case k ds of Some r \<Rightarrow> Some r | None \<Rightarrow> k (d # ds))
                 else k (d # ds))"

text \<open>\<open>s.match(re)\<close> for a pattern without the \<open>g\<close> flag: the leftmost start that matches.\<close>

fun regexSearch :: "(string \<Rightarrow> 'a option) \<Rightarrow> string \<Rightarrow> 'a option" where
  "regexSearch m [] = m []"
| "regexSearch m (c # cs) = (case m (c # cs) of Some r \<Rightarrow> Some r | None \<Rightarrow> regexSearch m cs)"

text \<open>\<open>/(.+?) - (.+?) - Spotify/\<close>\<close>

definition songMatch :: "string \<Rightarrow> (string \<times> string) option" where
  "songMatch windowTitle =
     map_option (\<lambda>(g1, g2, u). (g1, g2))
       (regexSearch (lazyPlus isDot (lit '' - '' (lazyPlus isDot (lit '' - Spotify'' accept))))
          windowTitle)"

text \<open>\<open>/(.+) - ([^-]+) - Google Chrome$/\<close>\<close>

definition chromeMatch :: "string \<Rightarrow> (string \<times> string) option" where
  "chromeMatch windowTitle =
     map_option (\<lambda>(g1, g2, u). (g1, g2))
       (regexSearch
          (greedyPlus isDot (lit '' - '' (greedyPlus notDash (lit '' - Google Chrome'' eos))))
          windowTitle)"

text \<open>\<open>/(.+) - Google Chrome$/\<close>\<close>

definition simpleMatch :: "string \<Rightarrow> string option" where
  "simpleMatch windowTitle =
     map_option fst (regexSearch (greedyPlus isDot (lit '' - Google Chrome'' eos)) windowTitle)"

text \<open>\<open>/(.+) - YouTube/\<close>\<close>

definition ytMatch :: "string \<Rightarrow> string option" where
  "ytMatch windowTitle =
     map_option fst (regexSearch (greedyPlus isDot (lit '' - YouTube'' accept)) windowTitle)"

text \<open>\<open>/server:?\s*([^-]+)/i\<close>\<close>

definition serverMatch :: "string \<Rightarrow> string option" where
  "serverMatch windowTitle =
     map_option fst
       (regexSearch
          (litIgnoreCase ''server''
             (optChar CHR '':'' (greedyStar isWhiteSpace (greedyPlus notDash accept))))
          windowTitle)"

text \<open>\<open>/\.([^.]+)$/\<close>\<close>

definition fileMatchEnd :: "string \<Rightarrow> string option" where
  "fileMatchEnd windowTitle =
     map_option fst (regexSearch (lit ''.'' (greedyPlus notPeriod eos)) windowTitle)"

text \<open>\<open>/\.([^.]+) -/\<close>\<close>

definition fileMatchDash :: "string \<Rightarrow> string option" where
  "fileMatchDash windowTitle =
     map_option fst (regexSearch (lit ''.'' (greedyPlus notPeriod (lit '' -'' accept))) windowTitle)"

section \<open>Configuration and data\<close>

text \<open>
  An entry of \<open>priorityApps\<close> or \<open>customApps\<close> of the configuration file, with its fields
  \<open>processName\<close>, \<open>type\<close>, \<open>icon\<close> and \<open>details\<close>.
\<close>

record app_rule =
  rule_processName :: string
  rule_type :: string
  rule_icon :: string
  rule_details :: string

text \<open>
  The configuration the two programs share; \<open>priorityApps\<close> and \<open>customApps\<close> are read
  from the same file. The single-application program adds \<open>clientId\<close>, the
  multi-application program \<open>defaultClientId\<close> and \<open>applications\<close> (in the order of
  \<open>Object.entries\<close>, each category with its \<open>clientId\<close> and \<open>processNames\<close>).
\<close>

record app_config =
  updateInterval :: rat
  enableDetailedStats :: bool
  enableSystemInfo :: bool
  idleTimeout :: rat
  priorityApps :: "app_rule list"
  customApps :: "app_rule list"

record config_single = app_config +
  clientId :: string

record application =
  app_clientId :: string
  processNames :: "string list"

record config_multi = app_config +
  defaultClientId :: string
  applications :: "(string \<times> application) list"

record button =
  button_label :: string
  button_url :: string

record ActivityData =
  details :: string
  state :: string
  largeImageKey :: string
  largeImageText :: string
  smallImageKey :: "string option"
  smallImageText :: "string option"
  startTimestamp :: "int option"
  endTimestamp :: "int option"
  buttons :: "button list option"

text \<open>
  What one poll reads from outside the program: the object parsed from the PowerShell
  script's output (\<open>MainWindowTitle\<close>, \<open>ProcessName\<close>; the source has put its own
  sentinel there when the script failed), or \<open>None\<close> when writing the script file threw;
  the values of the calls of \<open>Date.now()\<close>; the two system metrics; the host name and the
  release of the operating system.
\<close>

record poll_env =
  activeWindow :: "(string \<times> string) option"
  nowTrack :: int
  nowReset :: int
  nowDuration :: int
  cpuUsage :: jsnum
  memoryUsage :: jsnum
  hostname :: string
  osRelease :: string

text \<open>
  The local variables of \<open>getCurrentActivity\<close> that classification sets:
  \<open>activityType\<close>, \<open>largeImageKey\<close> (here \<open>imageKey\<close>), \<open>details\<close> (here
  \<open>detailsText\<close>), \<open>state\<close> (here \<open>stateText\<close>) and \<open>matchedApp\<close>.
\<close>

record locals =
  activityType :: string
  imageKey :: string
  detailsText :: string
  stateText :: string
  matchedApp :: bool

text \<open>The fields of the class \<open>ActivityTracker\<close>; the multi-application program has one more.\<close>

record tracker =
  lastActivity :: string
  lastProcessName :: string
  startTime :: int
  activityTimers :: "string \<rightharpoonup> int"
  dailyActivityStats :: "string \<rightharpoonup> int"

record tracker_multi = tracker +
  lastAppType :: string

section \<open>Classification\<close>

definition initLocals :: "string \<Rightarrow> string \<Rightarrow> locals" where
  "initLocals processName windowTitle =
     \<lparr>activityType = ''app'', imageKey = ''windows'',
      detailsText = ''Using '' @ processName,
      stateText = (if 2 < length windowTitle then windowTitle else ''Idle''),
      matchedApp = False\<rparr>"

definition matchesRule :: "string \<Rightarrow> string \<Rightarrow> app_rule \<Rightarrow> bool" where
  "matchesRule processName windowTitle app =
     (includesStr (toLowerCase processName) (toLowerCase (rule_processName app)) \<or>
      includesStr (toLowerCase windowTitle) (toLowerCase (rule_processName app)))"

definition applyRule :: "app_rule \<Rightarrow> string \<Rightarrow> locals \<Rightarrow> locals" where
  "applyRule app windowTitle v =
     v\<lparr>activityType := rule_type app, imageKey := rule_icon app,
       detailsText := rule_details app, stateText := windowTitle, matchedApp := True\<rparr>"

text \<open>The Spotify branch, the same in both programs.\<close>

definition spotifyRefine :: "string \<Rightarrow> locals \<Rightarrow> locals" where
  "spotifyRefine windowTitle v =
     (case songMatch windowTitle of
        Some (g1, g2) \<Rightarrow>
          (let song = trim g1; artist = trim g2;
               v1 = v\<lparr>stateText := song @ '' by '' @ artist\<rparr>
           in if song \<noteq> [] \<and> artist \<noteq> [] then v1\<lparr>detailsText := ''Listening to Music''\<rparr>
              else v1)
      | None \<Rightarrow>
          if trim windowTitle = ''Spotify'' \<or> includesStr windowTitle ''Spotify Premium''
          then v\<lparr>stateText := ''Browsing Music'', detailsText := ''Using Spotify''\<rparr>
          else v)"

text \<open>
  The Discord branch. A title that includes the separator splits into two parts or more,
  so the two programs, which nest the two length tests differently, agree.
\<close>

definition discordRefine :: "string \<Rightarrow> locals \<Rightarrow> locals" where
  "discordRefine windowTitle v =
     (if includesStr windowTitle '' - ''
      then (let parts = splitStr windowTitle '' - ''
            in if 3 \<le> length parts
               then v\<lparr>stateText := ''In #'' @ parts ! 0 @ '' on '' @ parts ! 1\<rparr>
               else if 2 \<le> length parts
               then v\<lparr>stateText := ''Chatting in '' @ parts ! 0\<rparr>
               else v)
      else if includesStr (toLowerCase windowTitle) ''direct''
      then v\<lparr>stateText := ''In Direct Messages''\<rparr>
      else v)"

definition steamRefine :: "string \<Rightarrow> locals \<Rightarrow> locals" where
  "steamRefine windowTitle v =
     (if includesStr windowTitle '' - ''
      then (let parts = splitStr windowTitle '' - ''
            in if 2 \<le> length parts \<and> includesStr (toLowerCase (last parts)) ''steam''
               then v\<lparr>stateText := ''Playing '' @ parts ! 0, detailsText := ''Gaming on Steam''\<rparr>
               else v)
      else if includesStr (toLowerCase windowTitle) ''store''
      then v\<lparr>stateText := ''Browsing the Store''\<rparr>
      else if includesStr (toLowerCase windowTitle) ''library''
      then v\<lparr>stateText := ''Browsing Library''\<rparr>
      else if includesStr (toLowerCase windowTitle) ''community''
      then v\<lparr>stateText := ''Browsing Community''\<rparr>
      else if toLowerCase windowTitle = ''steam''
      then v\<lparr>stateText := ''In Steam Client''\<rparr>
      else v)"

text \<open>The first half of the Chrome branch, the same in both programs.\<close>

definition chromeSite :: "string \<Rightarrow> locals \<Rightarrow> locals" where
  "chromeSite windowTitle v =
     (case chromeMatch windowTitle of
        Some (g1, g2) \<Rightarrow> v\<lparr>stateText := ''On '' @ trim g2\<rparr>
      | None \<Rightarrow>
          (case simpleMatch windowTitle of
             Some g1 \<Rightarrow> v\<lparr>stateText := ''On '' @ trim g1\<rparr>
           | None \<Rightarrow> v))"

definition watchingYouTube :: "string \<Rightarrow> locals \<Rightarrow> locals" where
  "watchingYouTube windowTitle v =
     (case ytMatch windowTitle of
        Some g1 \<Rightarrow> v\<lparr>stateText := ''Watching: '' @ trim g1\<rparr>
      | None \<Rightarrow> v)"

definition chromeRefine_single :: "string \<Rightarrow> locals \<Rightarrow> locals" where
  "chromeRefine_single windowTitle v =
     (let v1 = chromeSite windowTitle v
      in if includesStr (toLowerCase windowTitle) ''youtube''
         then watchingYouTube windowTitle
                (v1\<lparr>detailsText := ''Watching YouTube'', imageKey := ''youtube''\<rparr>)
         else if includesStr (toLowerCase windowTitle) ''twitch''
         then v1\<lparr>detailsText := ''Watching Twitch'', imageKey := ''twitch''\<rparr>
         else if includesStr (toLowerCase windowTitle) ''github''
         then v1\<lparr>detailsText := ''Working on GitHub'', imageKey := ''github''\<rparr>
         else v1)"

definition fortniteRefine :: "string \<Rightarrow> locals \<Rightarrow> locals" where
  "fortniteRefine windowTitle v =
     (if includesStr (toLowerCase windowTitle) ''lobby'' then v\<lparr>stateText := ''In Lobby''\<rparr>
      else if includesStr (toLowerCase windowTitle) ''battle'' then v\<lparr>stateText := ''In Battle''\<rparr>
      else v\<lparr>stateText := ''Battle Royale''\<rparr>)"

definition minecraftRefine :: "string \<Rightarrow> locals \<Rightarrow> locals" where
  "minecraftRefine windowTitle v =
     (if includesStr (toLowerCase windowTitle) ''server''
      then (case serverMatch windowTitle of
              Some g1 \<Rightarrow> v\<lparr>stateText := ''On server: '' @ trim g1\<rparr>
            | None \<Rightarrow> v)
      else v\<lparr>stateText := ''Playing Minecraft''\<rparr>)"

text \<open>
  The members every object literal inherits from \<open>Object.prototype\<close>, each with the
  string it is converted to. A lookup \<open>table[key]\<close> in an object literal finds them when
  the table has no entry of its own for the key.
\<close>

definition objectPrototype :: "(string \<times> string) list" where
  "objectPrototype =
     [(''constructor'', ''function Object() { [native code] }''),
      (''__defineGetter__'', ''function __defineGetter__() { [native code] }''),
      (''__defineSetter__'', ''function __defineSetter__() { [native code] }''),
      (''hasOwnProperty'', ''function hasOwnProperty() { [native code] }''),
      (''__lookupGetter__'', ''function __lookupGetter__() { [native code] }''),
      (''__lookupSetter__'', ''function __lookupSetter__() { [native code] }''),
      (''isPrototypeOf'', ''function isPrototypeOf() { [native code] }''),
      (''propertyIsEnumerable'', ''function propertyIsEnumerable() { [native code] }''),
      (''toString'', ''function toString() { [native code] }''),
      (''valueOf'', ''function valueOf() { [native code] }''),
      (''__proto__'', ''[object Object]''),
      (''toLocaleString'', ''function toLocaleString() { [native code] }'')]"

definition lookupLiteral :: "(string \<times> string) list \<Rightarrow> string \<Rightarrow> string option" where
  "lookupLiteral table key =
     (case map_of table key of Some v \<Rightarrow> Some v | None \<Rightarrow> map_of objectPrototype key)"

definition langMap :: "(string \<times> string) list" where
  "langMap =
     [(''js'', ''JavaScript''), (''ts'', ''TypeScript''), (''py'', ''Python''),
      (''java'', ''Java''), (''cpp'', ''C++''), (''cs'', ''C#''), (''html'', ''HTML''),
      (''css'', ''CSS''), (''php'', ''PHP'')]"

text \<open>\<open>langMap[extension] || extension\<close>\<close>

definition language :: "string \<Rightarrow> string" where
  "language extension =
     (case lookupLiteral langMap extension of Some l \<Rightarrow> l | None \<Rightarrow> extension)"

definition codingIn :: "string option \<Rightarrow> locals \<Rightarrow> locals" where
  "codingIn fileMatch v =
     (case fileMatch of
        Some g1 \<Rightarrow> v\<lparr>stateText := ''Coding in '' @ language (toLowerCase g1)\<rparr>
      | None \<Rightarrow> v)"

text \<open>The special handling of the rule that matched, single-application program.\<close>

definition refine_single :: "app_rule \<Rightarrow> string \<Rightarrow> locals \<Rightarrow> locals" where
  "refine_single app windowTitle v =
     (let token = toLowerCase (rule_processName app)
      in if includesStr token ''spotify'' then spotifyRefine windowTitle v
         else if includesStr token ''discord'' then discordRefine windowTitle v
         else if includesStr token ''steam'' then steamRefine windowTitle v
         else if includesStr token ''chrome'' then chromeRefine_single windowTitle v
         else if includesStr token ''fortnite'' then fortniteRefine windowTitle v
         else if includesStr token ''minecraft'' \<or> includesStr token ''prism''
         then minecraftRefine windowTitle v
         else if includesStr token ''code'' then codingIn (fileMatchEnd windowTitle) v
         else v)"

fun priorityLoop_single :: "string \<Rightarrow> string \<Rightarrow> app_rule list \<Rightarrow> locals \<Rightarrow> locals" where
  "priorityLoop_single processName windowTitle [] v = v"
| "priorityLoop_single processName windowTitle (app # apps) v =
     (if matchesRule processName windowTitle app
      then refine_single app windowTitle (applyRule app windowTitle v)
      else priorityLoop_single processName windowTitle apps v)"

text \<open>\<open>windowTitle.split(' - ')[0] || windowTitle\<close>\<close>

definition frameHostAppName :: "string \<Rightarrow> string" where
  "frameHostAppName windowTitle =
     (let first = splitStr windowTitle '' - '' ! 0 in if first = [] then windowTitle else first)"

fun customLoop_single :: "string \<Rightarrow> string \<Rightarrow> app_rule list \<Rightarrow> locals \<Rightarrow> locals" where
  "customLoop_single processName windowTitle [] v = v"
| "customLoop_single processName windowTitle (app # apps) v =
     (if matchesRule processName windowTitle app
      then v\<lparr>activityType := rule_type app, imageKey := rule_icon app,
             detailsText :=
               (if toLowerCase processName = ''applicationframehost''
                then ''Using '' @ frameHostAppName windowTitle
                else rule_details app),
             stateText := windowTitle, matchedApp := True\<rparr>
      else customLoop_single processName windowTitle apps v)"

text \<open>The table \<open>appMap\<close>; its key is \<open>rule_processName\<close> here.\<close>

definition appMap :: "app_rule list" where
  "appMap = map (\<lambda>(k, t, i, d). \<lparr>rule_processName = k, rule_type = t, rule_icon = i, rule_details = d\<rparr>)
     [(''chrome'', ''browsing'', ''chrome'', ''Browsing with Chrome''),
      (''firefox'', ''browsing'', ''windows'', ''Browsing with Firefox''),
      (''edge'', ''browsing'', ''windows'', ''Browsing with Edge''),
      (''brave'', ''browsing'', ''windows'', ''Browsing with Brave''),
      (''opera'', ''browsing'', ''windows'', ''Browsing with Opera''),
      (''code'', ''coding'', ''vscode'', ''Coding in VS Code''),
      (''visual studio'', ''coding'', ''vscode'', ''Developing in Visual Studio''),
      (''intellij'', ''coding'', ''vscode'', ''Coding in IntelliJ''),
      (''pycharm'', ''coding'', ''vscode'', ''Coding in PyCharm''),
      (''android studio'', ''coding'', ''vscode'', ''Android Development''),
      (''sublime'', ''coding'', ''vscode'', ''Coding in Sublime''),
      (''notepad++'', ''coding'', ''vscode'', ''Editing in Notepad++''),
      (''word'', ''writing'', ''windows'', ''Writing in Word''),
      (''excel'', ''spreadsheet'', ''windows'', ''Working in Excel''),
      (''powerpoint'', ''presentation'', ''windows'', ''Creating a Presentation''),
      (''outlook'', ''email'', ''windows'', ''Checking Email''),
      (''onenote'', ''notes'', ''windows'', ''Taking Notes''),
      (''teams'', ''meeting'', ''windows'', ''In a Meeting''),
      (''slack'', ''chat'', ''windows'', ''Chatting on Slack''),
      (''discord'', ''chat'', ''discord'', ''Chatting on Discord''),
      (''zoom'', ''meeting'', ''windows'', ''In a Zoom Meeting''),
      (''photoshop'', ''design'', ''windows'', ''Editing in Photoshop''),
      (''illustrator'', ''design'', ''windows'', ''Designing in Illustrator''),
      (''premiere'', ''video'', ''windows'', ''Editing Video''),
      (''aftereffects'', ''video'', ''windows'', ''Creating Motion Graphics''),
      (''figma'', ''design'', ''windows'', ''Designing in Figma''),
      (''blender'', ''3d'', ''windows'', ''3D Modeling''),
      (''unity'', ''gamedev'', ''windows'', ''Game Development''),
      (''unreal'', ''gamedev'', ''windows'', ''Game Development''),
      (''steam'', ''gaming'', ''windows'', ''Gaming on Steam''),
      (''epicgames'', ''gaming'', ''windows'', ''Gaming on Epic''),
      (''battle.net'', ''gaming'', ''windows'', ''Gaming on Battle.net''),
      (''league'', ''gaming'', ''windows'', ''Playing League of Legends''),
      (''valorant'', ''gaming'', ''windows'', ''Playing Valorant''),
      (''minecraft'', ''gaming'', ''windows'', ''Playing Minecraft''),
      (''fortnite'', ''gaming'', ''windows'', ''Playing Fortnite''),
      (''spotify'', ''music'', ''spotify'', ''Listening to Music''),
      (''netflix'', ''watching'', ''windows'', ''Watching Netflix''),
      (''vlc'', ''media'', ''windows'', ''Watching Media''),
      (''youtube'', ''watching'', ''windows'', ''Watching YouTube''),
      (''twitch'', ''watching'', ''windows'', ''Watching Twitch'')]"

fun appMapLoop :: "string \<Rightarrow> app_rule list \<Rightarrow> locals \<Rightarrow> locals" where
  "appMapLoop processName [] v = v"
| "appMapLoop processName (appInfo # rest) v =
     (if includesStr (toLowerCase processName) (toLowerCase (rule_processName appInfo))
      then v\<lparr>activityType := rule_type appInfo, imageKey := rule_icon appInfo,
             detailsText := rule_details appInfo, matchedApp := True\<rparr>
      else appMapLoop processName rest v)"

text \<open>The overrides by the exact process name, single-application program.\<close>

definition chromeOverride :: "string \<Rightarrow> locals \<Rightarrow> locals" where
  "chromeOverride windowTitle v =
     (let v1 = v\<lparr>detailsText := ''Browsing with Chrome'', activityType := ''browsing'',
                 imageKey := ''chrome''\<rparr>
      in if includesStr windowTitle '' - Google Chrome''
         then (let v2 = v1\<lparr>stateText := replaceFirst windowTitle '' - Google Chrome'' []\<rparr>
               in if includesStr (toLowerCase windowTitle) ''youtube''
                  then watchingYouTube windowTitle
                         (v2\<lparr>detailsText := ''Watching YouTube'', imageKey := ''windows''\<rparr>)
                  else if includesStr (toLowerCase windowTitle) ''twitch''
                  then v2\<lparr>detailsText := ''Watching Twitch'', imageKey := ''windows''\<rparr>
                  else if includesStr (toLowerCase windowTitle) ''github''
                  then v2\<lparr>detailsText := ''Working on GitHub'', imageKey := ''windows''\<rparr>
                  else v2)
         else v1)"

definition overrides_single :: "string \<Rightarrow> string \<Rightarrow> locals \<Rightarrow> locals" where
  "overrides_single processName windowTitle v =
     (if processName = ''Code''
      then codingIn (fileMatchDash windowTitle)
             (v\<lparr>detailsText := ''Coding in VS Code'', activityType := ''coding'',
                imageKey := ''vscode''\<rparr>)
      else if processName = ''chrome'' then chromeOverride windowTitle v
      else if processName = ''Discord''
      then v\<lparr>detailsText := ''Chatting on Discord'', activityType := ''chat'',
             imageKey := ''discord''\<rparr>
      else if processName = ''Spotify''
      then v\<lparr>detailsText := ''Listening to Music'', activityType := ''music'',
             imageKey := ''spotify''\<rparr>
      else if \<not> matchedApp v then v\<lparr>imageKey := ''windows''\<rparr>
      else v)"

text \<open>
  Classification in the single-application program: the variables as they stand when
  \<open>trackActivityTime\<close> is called, the process name already appended to \<open>state\<close>.
\<close>

definition classify_single :: "'a app_config_scheme \<Rightarrow> string \<Rightarrow> string \<Rightarrow> locals" where
  "classify_single config processName windowTitle =
     (let v0 = initLocals processName windowTitle;
          v1 = priorityLoop_single processName windowTitle (priorityApps config) v0;
          v2 = (if \<not> matchedApp v1
                then customLoop_single processName windowTitle (customApps config) v1 else v1);
          v3 = (if \<not> matchedApp v2 then appMapLoop processName appMap v2 else v2);
          v4 = overrides_single processName windowTitle v3
      in v4\<lparr>stateText := stateText v4 @ '' ('' @ processName @ '')''\<rparr>)"

text \<open>
  The application category of the multi-application program: the first entry of
  \<open>applications\<close> one of whose \<open>processNames\<close> occurs in the process name or in the
  window title, else \<open>default\<close>.
\<close>

fun appTypeLoop :: "string \<Rightarrow> string \<Rightarrow> (string \<times> application) list \<Rightarrow> string" where
  "appTypeLoop processName windowTitle [] = ''default''"
| "appTypeLoop processName windowTitle ((type, app) # rest) =
     (if list_ex
           (\<lambda>p. includesStr (toLowerCase processName) (toLowerCase p) \<or>
                includesStr (toLowerCase windowTitle) (toLowerCase p))
           (processNames app)
      then type
      else appTypeLoop processName windowTitle rest)"

definition valorantRefine :: "string \<Rightarrow> locals \<Rightarrow> locals" where
  "valorantRefine windowTitle v =
     (let v1 = v\<lparr>detailsText := ''Playing VALORANT''\<rparr>
      in if includesStr (toLowerCase windowTitle) ''lobby'' then v1\<lparr>stateText := ''In Lobby''\<rparr>
         else if includesStr (toLowerCase windowTitle) ''match''
         then v1\<lparr>stateText := ''In a Match''\<rparr>
         else v1\<lparr>stateText := ''In Game''\<rparr>)"

definition chromeRefine :: "string \<Rightarrow> locals \<Rightarrow> locals" where
  "chromeRefine windowTitle v =
     (let v1 = chromeSite windowTitle v
      in if includesStr (toLowerCase windowTitle) ''youtube''
         then watchingYouTube windowTitle (v1\<lparr>detailsText := ''Watching YouTube''\<rparr>)
         else if includesStr (toLowerCase windowTitle) ''twitch''
         then v1\<lparr>detailsText := ''Watching Twitch''\<rparr>
         else v1)"

text \<open>The special handling of the rule that matched, multi-application program.\<close>

definition refine :: "app_rule \<Rightarrow> string \<Rightarrow> string \<Rightarrow> locals \<Rightarrow> locals" where
  "refine app processName windowTitle v =
     (let token = toLowerCase (rule_processName app)
      in if includesStr token ''spotify'' then spotifyRefine windowTitle v
         else if includesStr token ''discord'' then discordRefine windowTitle v
         else if includesStr token ''valorant'' \<or>
                 toLowerCase processName = ''VALORANT-Win64-Shipping''
         then valorantRefine windowTitle v
         else if includesStr token ''chrome'' then chromeRefine windowTitle v
         else if token = ''code'' then codingIn (fileMatchDash windowTitle) v
         else v)"

fun priorityLoop :: "string \<Rightarrow> string \<Rightarrow> app_rule list \<Rightarrow> locals \<Rightarrow> locals" where
  "priorityLoop processName windowTitle [] v = v"
| "priorityLoop processName windowTitle (app # apps) v =
     (if matchesRule processName windowTitle app
      then refine app processName windowTitle (applyRule app windowTitle v)
      else priorityLoop processName windowTitle apps v)"

fun customLoop :: "string \<Rightarrow> string \<Rightarrow> app_rule list \<Rightarrow> locals \<Rightarrow> locals" where
  "customLoop processName windowTitle [] v = v"
| "customLoop processName windowTitle (app # apps) v =
     (if matchesRule processName windowTitle app then applyRule app windowTitle v
      else customLoop processName windowTitle apps v)"

definition activityToAppType :: "(string \<times> string) list" where
  "activityToAppType =
     [(''gaming'', ''games''), (''music'', ''music''), (''coding'', ''code''),
      (''browsing'', ''web''), (''chat'', ''messaging''), (''design'', ''creative''),
      (''streaming'', ''creative'')]"

text \<open>
  Classification in the multi-application program: the variables and the application
  category as they stand when the start time is looked at. A category read from
  \<open>activityToAppType\<close> through an inherited member is kept as the string it converts to.
\<close>

definition classify :: "config_multi \<Rightarrow> string \<Rightarrow> string \<Rightarrow> locals \<times> string" where
  "classify config processName windowTitle =
     (let appType0 = appTypeLoop processName windowTitle (applications config);
          v0 = initLocals processName windowTitle;
          v1 = priorityLoop processName windowTitle (priorityApps config) v0;
          v2 = (if \<not> matchedApp v1
                then customLoop processName windowTitle (customApps config) v1 else v1);
          valorant = (processName = ''VALORANT-Win64-Shipping'');
          appType1 = (if valorant then ''games'' else appType0);
          v3 = (if valorant
                then v2\<lparr>activityType := ''games'', imageKey := ''valorant'',
                        detailsText := ''Playing VALORANT'',
                        stateText :=
                          (if includesStr (toLowerCase windowTitle) ''lobby'' then ''In Lobby''
                           else ''In Game''),
                        matchedApp := True\<rparr>
                else v2);
          v4 = (if \<not> matchedApp v3 then v3\<lparr>imageKey := ''windows''\<rparr> else v3);
          appType2 =
            (if appType1 = ''default'' \<and> activityType v4 \<noteq> ''app''
             then (case lookupLiteral activityToAppType (activityType v4) of
                     Some a \<Rightarrow> a
                   | None \<Rightarrow> appType1)
             else appType1)
      in (v4, appType2))"

section \<open>Session tracking and the presence payload\<close>

definition formatDuration :: "int \<Rightarrow> string" where
  "formatDuration milliseconds =
     (let seconds = milliseconds div 1000;
          minutes = seconds div 60;
          hours = minutes div 60
      in if 0 < hours then showInt hours @ ''h '' @ showInt (minutes mod 60) @ ''m''
         else if 0 < minutes then showInt minutes @ ''m '' @ showInt (seconds mod 60) @ ''s''
         else showInt seconds @ ''s'')"

text \<open>\<open>trackActivityTime\<close>, the same in both programs; \<open>now\<close> is its \<open>Date.now()\<close>.\<close>

definition trackActivityTime :: "string \<Rightarrow> int \<Rightarrow> 'a tracker_scheme \<Rightarrow> 'a tracker_scheme" where
  "trackActivityTime activity now t =
     (let t1 = (if activityTimers t activity = None
                then t\<lparr>activityTimers := (activityTimers t)(activity \<mapsto> now)\<rparr> else t);
          dailyTime = (case dailyActivityStats t1 activity of Some n \<Rightarrow> n | None \<Rightarrow> 0)
      in t1\<lparr>dailyActivityStats := (dailyActivityStats t1)(activity \<mapsto> dailyTime + 10)\<rparr>)"

text \<open>\<open>this.dailyActivityStats.get(activityType) || 0\<close>\<close>

definition dailySeconds :: "'a tracker_scheme \<Rightarrow> string \<Rightarrow> int" where
  "dailySeconds t activity = (case dailyActivityStats t activity of Some n \<Rightarrow> n | None \<Rightarrow> 0)"

text \<open>
  The two tests after classification, single-application program: the start time is
  reset when the process name has changed; the stored activity type follows the current
  one and resets nothing.
\<close>

definition updateSession_single :: "string \<Rightarrow> string \<Rightarrow> int \<Rightarrow> 'a tracker_scheme \<Rightarrow> 'a tracker_scheme" where
  "updateSession_single processName activity now t =
     (let t1 = (if processName \<noteq> lastProcessName t
                then t\<lparr>startTime := now, lastProcessName := processName\<rparr> else t)
      in if activity \<noteq> lastActivity t1 then t1\<lparr>lastActivity := activity\<rparr> else t1)"

text \<open>
  The same place in the multi-application program: the start time is reset when the
  process name or the application category has changed.
\<close>

definition updateSession :: "string \<Rightarrow> string \<Rightarrow> string \<Rightarrow> int \<Rightarrow> tracker_multi \<Rightarrow> tracker_multi" where
  "updateSession processName appType activity now t =
     (let t1 = (if processName \<noteq> lastProcessName t \<or> appType \<noteq> lastAppType t
                then t\<lparr>startTime := now, lastProcessName := processName,
                       lastAppType := appType\<rparr>
                else t)
      in if activity \<noteq> lastActivity t1 then t1\<lparr>lastActivity := activity\<rparr> else t1)"

text \<open>\<open>x || "Unknown"\<close>\<close>

definition orUnknown :: "string \<Rightarrow> string" where
  "orUnknown s = (if s = [] then ''Unknown'' else s)"

text \<open>The activity returned when the detection threw.\<close>

definition fallbackActivity :: "string \<Rightarrow> int \<Rightarrow> ActivityData" where
  "fallbackActivity release start =
     \<lparr>details = ''Online'', state = ''Using Windows'', largeImageKey = ''windows'',
      largeImageText = ''Windows '' @ release, smallImageKey = None, smallImageText = None,
      startTimestamp = Some start, endTimestamp = None, buttons = None\<rparr>"

definition systemInfo :: "poll_env \<Rightarrow> string" where
  "systemInfo env =
     '' | CPU: '' @ showNum (cpuUsage env) @ ''%, RAM: '' @ showNum (memoryUsage env) @ ''%''"

text \<open>The object the single-application program returns from \<open>getCurrentActivity\<close>.\<close>

definition buildActivity_single :: "locals \<Rightarrow> poll_env \<Rightarrow> 'a tracker_scheme \<Rightarrow> ActivityData" where
  "buildActivity_single v env t =
     (let formattedDuration = formatDuration (nowDuration env - startTime t)
      in \<lparr>details = substring0 128 (detailsText v),
          state = substring0 60 (stateText v) @ '' | '' @ formattedDuration @ systemInfo env,
          largeImageKey = imageKey v,
          largeImageText = capitalize (activityType v) @ '' for '' @ formattedDuration,
          smallImageKey = Some ''info'',
          smallImageText =
            Some (hostname env @ '' | Today: '' @
                  formatDuration (dailySeconds t (activityType v) * 1000)),
          startTimestamp = Some (startTime t),
          endTimestamp = None,
          buttons =
            Some [\<lparr>button_label = ''Activity Stats'', button_url = ''https://discord.com''\<rparr>]\<rparr>)"

definition getCurrentActivity_single :: "'a app_config_scheme \<Rightarrow> poll_env \<Rightarrow> tracker \<Rightarrow> ActivityData \<times> tracker" where
  "getCurrentActivity_single config env t =
     (case activeWindow env of
        None \<Rightarrow> (fallbackActivity (osRelease env) (startTime t), t)
      | Some (title, pname) \<Rightarrow>
          (let windowTitle = orUnknown title;
               processName = orUnknown pname;
               v = classify_single config processName windowTitle;
               t1 = trackActivityTime (activityType v) (nowTrack env) t;
               t2 = updateSession_single processName (activityType v) (nowReset env) t1
           in (buildActivity_single v env t2, t2)))"

text \<open>
  The multi-application program formats the state by the settings, and cuts it to 128
  code units.
\<close>

definition formatState :: "'a app_config_scheme \<Rightarrow> string \<Rightarrow> string \<Rightarrow> poll_env \<Rightarrow> string" where
  "formatState config st formattedDuration env =
     (if enableDetailedStats config
      then (let formattedState = substring0 60 st @ '' | '' @ formattedDuration
            in if enableSystemInfo config then formattedState @ systemInfo env
               else formattedState)
      else st)"

definition buildActivity :: "'a app_config_scheme \<Rightarrow> locals \<Rightarrow> string \<Rightarrow> poll_env \<Rightarrow> 'b tracker_scheme \<Rightarrow> ActivityData" where
  "buildActivity config v formattedDuration env t =
     \<lparr>details = substring0 128 (detailsText v),
      state = substring0 128 (formatState config (stateText v) formattedDuration env),
      largeImageKey = imageKey v,
      largeImageText = capitalize (activityType v) @ '' for '' @ formattedDuration,
      smallImageKey = Some ''info'',
      smallImageText =
        Some (hostname env @ '' | Today: '' @
              formatDuration (dailySeconds t (activityType v) * 1000)),
      startTimestamp = Some (startTime t),
      endTimestamp = None,
      buttons = None\<rparr>"

text \<open>
  \<open>getCurrentActivity\<close> of the multi-application program returns the activity, the
  application category and the process name.
\<close>

definition getCurrentActivity :: "config_multi \<Rightarrow> poll_env \<Rightarrow> tracker_multi \<Rightarrow> (ActivityData \<times> string \<times> string) \<times> tracker_multi" where
  "getCurrentActivity config env t =
     (case activeWindow env of
        None \<Rightarrow> ((fallbackActivity (osRelease env) (startTime t), ''default'', ''explorer''), t)
      | Some (title, pname) \<Rightarrow>
          (let windowTitle = orUnknown title;
               processName = orUnknown pname;
               (v, appType) = classify config processName windowTitle;
               t1 = updateSession processName appType (activityType v) (nowReset env) t;
               formattedDuration = formatDuration (nowDuration env - startTime t1);
               t2 = trackActivityTime (activityType v) (nowTrack env) t1
           in ((buildActivity config v formattedDuration env t2, appType, processName), t2)))"

section \<open>Timers, the client and the application\<close>

text \<open>
  The timers of the runtime are kept in the state: \<open>setTimeout\<close> and \<open>setInterval\<close> add
  a pending timer under a fresh handle, \<open>clearTimeout\<close> and \<open>clearInterval\<close> remove the
  timer with the handle they are given. A timer knows which callback it runs, the delay
  it was set with and the time at which it was set; when a pending timer fires is left to
  the runtime.
\<close>

datatype timer_kind = PollTick | SwitchFire string | ReconnectFire

record timer =
  handle :: nat
  kind :: timer_kind
  delay :: rat
  setAt :: int

text \<open>The calls to the Discord client, in the order in which they are made.\<close>

datatype client_call = NewClient | Login string | Destroy | SetActivity ActivityData

datatype login_result = LoginOk | LoginFail

text \<open>
  The class \<open>DiscordRPCApp\<close> of the single-application program, with the runtime's
  pending timers and the calls made so far; \<open>updateIntervalTimer\<close> is its field
  \<open>updateInterval\<close>.
\<close>

record 'tr rpc_app =
  activityTracker :: 'tr
  updateIntervalTimer :: "nat option"
  pending :: "timer list"
  nextHandle :: nat
  calls :: "client_call list"

text \<open>
  The multi-application program has three more fields in the class, and the module's
  variables \<open>currentClientId\<close>, \<open>clientConnected\<close> and \<open>reconnectAttempts\<close>.
\<close>

record multi_app = "tracker_multi rpc_app" +
  switchTimeout :: "nat option"
  lastSwitchTime :: int
  isReconnecting :: bool
  currentClientId :: string
  clientConnected :: bool
  reconnectAttempts :: nat

definition setTimer :: "timer_kind \<Rightarrow> rat \<Rightarrow> int \<Rightarrow> ('tr, 'z) rpc_app_scheme \<Rightarrow> nat \<times> ('tr, 'z) rpc_app_scheme" where
  "setTimer k d now st =
     (nextHandle st,
      st\<lparr>pending := pending st @ [\<lparr>handle = nextHandle st, kind = k, delay = d,
                                     setAt = now\<rparr>],
         nextHandle := Suc (nextHandle st)\<rparr>)"

definition clearTimer :: "nat \<Rightarrow> ('tr, 'z) rpc_app_scheme \<Rightarrow> ('tr, 'z) rpc_app_scheme" where
  "clearTimer h st = st\<lparr>pending := filter (\<lambda>t. handle t \<noteq> h) (pending st)\<rparr>"

definition call :: "client_call \<Rightarrow> ('tr, 'z) rpc_app_scheme \<Rightarrow> ('tr, 'z) rpc_app_scheme" where
  "call c st = st\<lparr>calls := calls st @ [c]\<rparr>"

text \<open>\<open>startActivityTracking\<close>, the same in both programs.\<close>

definition startActivityTracking :: "'a app_config_scheme \<Rightarrow> int \<Rightarrow> ('tr, 'z) rpc_app_scheme \<Rightarrow> ('tr, 'z) rpc_app_scheme" where
  "startActivityTracking config now st =
     (let st1 = (case updateIntervalTimer st of Some h \<Rightarrow> clearTimer h st | None \<Rightarrow> st);
          (h, st2) = setTimer PollTick (updateInterval config) now st1
      in st2\<lparr>updateIntervalTimer := Some h\<rparr>)"

subsection \<open>The single-application program\<close>

definition reconnect_single :: "int \<Rightarrow> ('tr, 'z) rpc_app_scheme \<Rightarrow> ('tr, 'z) rpc_app_scheme" where
  "reconnect_single now st = snd (setTimer ReconnectFire 15000 now st)"

text \<open>
  \<open>start\<close>: the outcome of \<open>client.login\<close> is given from outside. A login that succeeds
  has emitted \<open>ready\<close>, whose handler starts the tracking.
\<close>

definition start_single :: "config_single \<Rightarrow> login_result \<Rightarrow> int \<Rightarrow> tracker rpc_app \<Rightarrow> tracker rpc_app" where
  "start_single config res now st =
     (let st1 = call (Login (clientId config)) st
      in case res of
           LoginOk \<Rightarrow> startActivityTracking config now st1
         | LoginFail \<Rightarrow> reconnect_single now st1)"

definition pollTick_single :: "config_single \<Rightarrow> poll_env \<Rightarrow> tracker rpc_app \<Rightarrow> tracker rpc_app" where
  "pollTick_single config env st =
     (let (activity, t) = getCurrentActivity_single config env (activityTracker st)
      in call (SetActivity activity) (st\<lparr>activityTracker := t\<rparr>))"

definition stop_single :: "tracker rpc_app \<Rightarrow> tracker rpc_app" where
  "stop_single st =
     (let st1 = (case updateIntervalTimer st of
                   Some h \<Rightarrow> (clearTimer h st)\<lparr>updateIntervalTimer := None\<rparr>
                 | None \<Rightarrow> st)
      in call Destroy st1)"

subsection \<open>The multi-application program\<close>

text \<open>
  \<open>Math.min(15000 * Math.pow(1.5, reconnectAttempts - 1), 120000)\<close>. The products below
  the cap are exact in binary floating point (the largest is 113906.25), and every later
  product is above the cap, so the rational value is the value the program computes.
\<close>

definition backoffTime :: "nat \<Rightarrow> rat" where
  "backoffTime attempts = min (15000 * (3 / 2) ^ (attempts - 1)) 120000"

definition reconnect :: "int \<Rightarrow> multi_app \<Rightarrow> multi_app" where
  "reconnect now st =
     (if isReconnecting st then st
      else (let st1 = st\<lparr>isReconnecting := True,
                         reconnectAttempts := Suc (reconnectAttempts st)\<rparr>
            in snd (setTimer ReconnectFire (backoffTime (reconnectAttempts st1)) now st1)))"

text \<open>The three handlers that \<open>setupClientEventHandlers\<close> installs.\<close>

definition onReady :: "config_multi \<Rightarrow> int \<Rightarrow> multi_app \<Rightarrow> multi_app" where
  "onReady config now st =
     startActivityTracking config now (st\<lparr>clientConnected := True, reconnectAttempts := 0\<rparr>)"

definition onError :: "int \<Rightarrow> multi_app \<Rightarrow> multi_app" where
  "onError now st =
     (let st1 = st\<lparr>clientConnected := False\<rparr>
      in if \<not> isReconnecting st1 then reconnect now st1 else st1)"

definition onDisconnected :: "int \<Rightarrow> multi_app \<Rightarrow> multi_app" where
  "onDisconnected now st =
     (let st1 = st\<lparr>clientConnected := False\<rparr>
      in if \<not> isReconnecting st1 then reconnect now st1 else st1)"

text \<open>
  \<open>start\<close>: a login that succeeds has emitted \<open>ready\<close> before the awaited call returns
  and \<open>currentClientId\<close> is set; a login that fails leads to \<open>reconnect\<close>.
\<close>

definition start :: "config_multi \<Rightarrow> login_result \<Rightarrow> int \<Rightarrow> multi_app \<Rightarrow> multi_app" where
  "start config res now st =
     (let st1 = call (Login (defaultClientId config)) st
      in case res of
           LoginOk \<Rightarrow> (onReady config now st1)\<lparr>currentClientId := defaultClientId config\<rparr>
         | LoginFail \<Rightarrow> reconnect now st1)"

text \<open>The callback of the timer that \<open>reconnect\<close> sets.\<close>

definition reconnectCallback :: "config_multi \<Rightarrow> login_result \<Rightarrow> int \<Rightarrow> multi_app \<Rightarrow> multi_app" where
  "reconnectCallback config res now st = start config res now (st\<lparr>isReconnecting := False\<rparr>)"

text \<open>
  \<open>switchClient\<close> returns a promise: resolved at once with \<open>true\<close> or \<open>false\<close>, or left
  to the callback of the timer it has set.
\<close>

datatype switch_promise = Resolved bool | Deferred

definition switchClient :: "string \<Rightarrow> int \<Rightarrow> multi_app \<Rightarrow> switch_promise \<times> multi_app" where
  "switchClient newClientId now st =
     (if newClientId = currentClientId st \<and> clientConnected st then (Resolved True, st)
      else if now - lastSwitchTime st < 15000 then (Resolved False, st)
      else (let st1 = (case switchTimeout st of Some h \<Rightarrow> clearTimer h st | None \<Rightarrow> st);
                (h, st2) = setTimer (SwitchFire newClientId) 3000 now st1
            in (Deferred, st2\<lparr>switchTimeout := Some h\<rparr>)))"

text \<open>
  The callback of the timer that \<open>switchClient\<close> sets; it resolves the promise with the
  boolean returned here.
\<close>

definition switchCallback :: "config_multi \<Rightarrow> string \<Rightarrow> login_result \<Rightarrow> int \<Rightarrow> multi_app \<Rightarrow> bool \<times> multi_app" where
  "switchCallback config newClientId res now st =
     (let st1 = (if clientConnected st then (call Destroy st)\<lparr>clientConnected := False\<rparr>
                 else st);
          st2 = call (Login newClientId) (call NewClient st1)
      in case res of
           LoginOk \<Rightarrow>
             (True, (onReady config now st2)\<lparr>currentClientId := newClientId,
                                               lastSwitchTime := now\<rparr>)
         | LoginFail \<Rightarrow> (False, st2))"

text \<open>\<open>config.applications[appType]\<close>, if there is one, gives the client id.\<close>

definition clientIdFor :: "config_multi \<Rightarrow> string \<Rightarrow> string" where
  "clientIdFor config appType =
     (case map_of (applications config) appType of
        Some app \<Rightarrow> app_clientId app
      | None \<Rightarrow> defaultClientId config)"

text \<open>The callback of the interval that \<open>startActivityTracking\<close> sets.\<close>

definition pollTick :: "config_multi \<Rightarrow> poll_env \<Rightarrow> int \<Rightarrow> multi_app \<Rightarrow> multi_app" where
  "pollTick config env now st =
     (let ((activity, appType, processName), t) =
            getCurrentActivity config env (activityTracker st);
          st1 = st\<lparr>activityTracker := t\<rparr>;
          newClientId = clientIdFor config appType;
          st2 = (if newClientId \<noteq> currentClientId st1
                 then snd (switchClient newClientId now st1) else st1)
      in if clientConnected st2 then call (SetActivity activity) st2 else st2)"

definition stop :: "multi_app \<Rightarrow> multi_app" where
  "stop st =
     (let st1 = (case updateIntervalTimer st of
                   Some h \<Rightarrow> (clearTimer h st)\<lparr>updateIntervalTimer := None\<rparr>
                 | None \<Rightarrow> st);
          st2 = (case switchTimeout st1 of
                   Some h \<Rightarrow> (clearTimer h st1)\<lparr>switchTimeout := None\<rparr>
                 | None \<Rightarrow> st1)
      in call Destroy st2)"

text \<open>
  What can happen to the running program: \<open>start\<close> or \<open>stop\<close> is called, the client
  emits one of its events, or the runtime runs the callback of the pending timer with a
  given handle. An interval stays pending when it has fired, a timeout does not. The
  runtime runs no callback of a handle that is not pending.
\<close>

datatype event =
    Start login_result
  | Ready
  | Error
  | Disconnected
  | Fire nat login_result poll_env
  | Stop

definition findTimer :: "nat \<Rightarrow> ('tr, 'z) rpc_app_scheme \<Rightarrow> timer option" where
  "findTimer h st = find (\<lambda>t. handle t = h) (pending st)"

definition fire :: "config_multi \<Rightarrow> nat \<Rightarrow> login_result \<Rightarrow> poll_env \<Rightarrow> int \<Rightarrow> multi_app \<Rightarrow> multi_app" where
  "fire config h res env now st =
     (case findTimer h st of
        None \<Rightarrow> st
      | Some t \<Rightarrow>
          (case kind t of
             PollTick \<Rightarrow> pollTick config env now st
           | SwitchFire newClientId \<Rightarrow>
               snd (switchCallback config newClientId res now (clearTimer h st))
           | ReconnectFire \<Rightarrow> reconnectCallback config res now (clearTimer h st)))"

definition step :: "config_multi \<Rightarrow> int \<times> event \<Rightarrow> multi_app \<Rightarrow> multi_app" where
  "step config te st =
     (case te of (now, ev) \<Rightarrow>
        (case ev of
           Start res \<Rightarrow> start config res now st
         | Ready \<Rightarrow> onReady config now st
         | Error \<Rightarrow> onError now st
         | Disconnected \<Rightarrow> onDisconnected now st
         | Fire h res env \<Rightarrow> fire config h res env now st
         | Stop \<Rightarrow> stop st))"

definition run :: "config_multi \<Rightarrow> (int \<times> event) list \<Rightarrow> multi_app \<Rightarrow> multi_app" where
  "run config evs st = fold (step config) evs st"

text \<open>The same for the single-application program, which listens to \<open>ready\<close> and \<open>error\<close>.\<close>

definition fire_single :: "config_single \<Rightarrow> nat \<Rightarrow> login_result \<Rightarrow> poll_env \<Rightarrow> int \<Rightarrow> tracker rpc_app \<Rightarrow> tracker rpc_app" where
  "fire_single config h res env now st =
     (case findTimer h st of
        None \<Rightarrow> st
      | Some t \<Rightarrow>
          (case kind t of
             PollTick \<Rightarrow> pollTick_single config env st
           | SwitchFire newClientId \<Rightarrow> clearTimer h st
           | ReconnectFire \<Rightarrow> start_single config res now (clearTimer h st)))"

definition step_single :: "config_single \<Rightarrow> int \<times> event \<Rightarrow> tracker rpc_app \<Rightarrow> tracker rpc_app" where
  "step_single config te st =
     (case te of (now, ev) \<Rightarrow>
        (case ev of
           Start res \<Rightarrow> start_single config res now st
         | Ready \<Rightarrow> startActivityTracking config now st
         | Error \<Rightarrow> reconnect_single now st
         | Disconnected \<Rightarrow> st
         | Fire h res env \<Rightarrow> fire_single config h res env now st
         | Stop \<Rightarrow> stop_single st))"

definition run_single :: "config_single \<Rightarrow> (int \<times> event) list \<Rightarrow> tracker rpc_app \<Rightarrow> tracker rpc_app" where
  "run_single config evs st = fold (step_single config) evs st"

text \<open>The two programs as they are when the module has been loaded, at time \<open>now\<close>.\<close>

definition newTracker :: "int \<Rightarrow> tracker" where
  "newTracker now =
     \<lparr>lastActivity = [], lastProcessName = [], startTime = now,
      activityTimers = Map.empty, dailyActivityStats = Map.empty\<rparr>"

definition newTracker_multi :: "int \<Rightarrow> tracker_multi" where
  "newTracker_multi now =
     \<lparr>lastActivity = [], lastProcessName = [], startTime = now,
      activityTimers = Map.empty, dailyActivityStats = Map.empty, lastAppType = []\<rparr>"

definition newApp_single :: "int \<Rightarrow> tracker rpc_app" where
  "newApp_single now =
     \<lparr>activityTracker = newTracker now, updateIntervalTimer = None, pending = [],
      nextHandle = 0, calls = [NewClient]\<rparr>"

definition newApp :: "config_multi \<Rightarrow> int \<Rightarrow> multi_app" where
  "newApp config now =
     \<lparr>activityTracker = newTracker_multi now, updateIntervalTimer = None, pending = [],
      nextHandle = 0, calls = [NewClient], switchTimeout = None, lastSwitchTime = 0,
      isReconnecting = False, currentClientId = defaultClientId config,
      clientConnected = False, reconnectAttempts = 0\<rparr>"


section \<open>Runs, invariants and sample data\<close>

text \<open>
  Every pending timer has a handle the runtime has already given out; the next handle
  is therefore new.
\<close>

definition handlesFresh :: "('tr, 'z) rpc_app_scheme \<Rightarrow> bool" where
  "handlesFresh st = (\<forall>t \<in> set (pending st). handle t < nextHandle st)"

definition isSwitch :: "timer_kind \<Rightarrow> bool" where
  "isSwitch k = (case k of SwitchFire newClientId \<Rightarrow> True | _ \<Rightarrow> False)"

text \<open>
  What holds of the multi-application program in every state it can reach: handles are
  fresh and pairwise different; the handle kept in \<open>updateInterval\<close> belongs to a poll
  timer; a pending timer is a switch timer exactly when it is the one kept in
  \<open>switchTimeout\<close>; and while \<open>isReconnecting\<close> is set, a reconnect timer is pending.
\<close>

definition wellFormed :: "multi_app \<Rightarrow> bool" where
  "wellFormed st =
     (handlesFresh st \<and>
      distinct (map handle (pending st)) \<and>
      (\<forall>h. updateIntervalTimer st = Some h \<longrightarrow> h < nextHandle st) \<and>
      (\<forall>h. switchTimeout st = Some h \<longrightarrow> h < nextHandle st) \<and>
      (\<forall>t \<in> set (pending st). updateIntervalTimer st = Some (handle t) \<longrightarrow> kind t = PollTick) \<and>
      (\<forall>t \<in> set (pending st). isSwitch (kind t) = (switchTimeout st = Some (handle t))) \<and>
      (isReconnecting st \<longrightarrow> (\<exists>t \<in> set (pending st). kind t = ReconnectFire)))"

text \<open>
  A connection failure as the multi-application program sees it: \<open>start\<close> whose login
  fails, the event \<open>error\<close>, the event \<open>disconnected\<close>. The single-application program
  has no handler for \<open>disconnected\<close>.
\<close>

definition isFailure :: "event \<Rightarrow> bool" where
  "isFailure ev = (ev = Start LoginFail \<or> ev = Error \<or> ev = Disconnected)"

definition isFailure_single :: "event \<Rightarrow> bool" where
  "isFailure_single ev = (ev = Start LoginFail \<or> ev = Error)"

text \<open>
  The retries that follow a first failure when every login fails again: at each of the
  times \<open>ts\<close> the reconnect timer set by the failure before it fires. The first of these
  timers has the handle \<open>h0\<close>; no other timer is set in between, so the handles that
  follow are the next numbers.
\<close>

fun retries :: "nat \<Rightarrow> poll_env \<Rightarrow> int list \<Rightarrow> (int \<times> event) list" where
  "retries h0 env [] = []"
| "retries h0 env (t # ts) = (t, Fire h0 LoginFail env) # retries (Suc h0) env ts"

text \<open>
  Every pending reconnect timer was set with a positive delay of at most 120 seconds.
\<close>

definition delaysCapped :: "('tr, 'z) rpc_app_scheme \<Rightarrow> bool" where
  "delaysCapped st =
     (\<forall>t \<in> set (pending st). kind t = ReconnectFire \<longrightarrow> 0 < delay t \<and> delay t \<le> 120000)"

text \<open>Sample data: rules, two configurations and what a poll reads.\<close>

definition spotifyRule :: app_rule where
  "spotifyRule =
     \<lparr>rule_processName = ''Spotify'', rule_type = ''music'', rule_icon = ''spotify'',
      rule_details = ''Listening to Spotify''\<rparr>"

definition sampleConfig :: config_multi where
  "sampleConfig =
     \<lparr>updateInterval = 10000, enableDetailedStats = True, enableSystemInfo = True,
      idleTimeout = 300000, priorityApps = [spotifyRule], customApps = [],
      defaultClientId = ''1000'',
      applications =
        [(''games'', \<lparr>app_clientId = ''2000'', processNames = [''steam'']\<rparr>),
         (''music'', \<lparr>app_clientId = ''3000'', processNames = [''spotify'']\<rparr>),
         (''code'', \<lparr>app_clientId = ''4000'', processNames = [''code'']\<rparr>)]\<rparr>"

definition sampleConfig_single :: config_single where
  "sampleConfig_single =
     \<lparr>updateInterval = 10000, enableDetailedStats = True, enableSystemInfo = True,
      idleTimeout = 300000, priorityApps = [spotifyRule], customApps = [],
      clientId = ''1000''\<rparr>"

definition sampleEnv :: "string \<Rightarrow> string \<Rightarrow> int \<Rightarrow> poll_env" where
  "sampleEnv windowTitle processName now =
     \<lparr>activeWindow = Some (windowTitle, processName), nowTrack = now, nowReset = now,
      nowDuration = now, cpuUsage = Num 7, memoryUsage = Num 42, hostname = ''DESKTOP'',
      osRelease = ''10.0.19045''\<rparr>"

text \<open>
  Two sample states of the multi-application program: connected with the default client
  id after a start at time 1000000; and after a switch to the client id \<open>3000\<close> that was
  requested at 1010000 and completed at 1013000.
\<close>

definition connectedApp :: multi_app where
  "connectedApp = start sampleConfig LoginOk 1000000 (newApp sampleConfig 1000000)"

definition switchedApp :: multi_app where
  "switchedApp =
     fire sampleConfig 1 LoginOk (sampleEnv [] [] 0) 1013000
       (snd (switchClient ''3000'' 1010000 connectedApp))"


text \<open>
  More sample data: a configuration with a poll interval of 5 seconds instead of the 10
  of the default, and one whose rule has a type of 200 characters.
\<close>

definition fastConfig :: config_multi where
  "fastConfig = sampleConfig\<lparr>updateInterval := 5000\<rparr>"

definition longTypeConfig :: config_multi where
  "longTypeConfig =
     sampleConfig\<lparr>priorityApps := [spotifyRule\<lparr>rule_type := replicate 200 CHR ''a''\<rparr>]\<rparr>"






section \<open>Switching the client\<close>

text \<open>
  Claim C10. \<open>switchClient\<close>, called with the client id that is current while the client
  is connected, resolves to \<open>true\<close> at once and leaves the whole state as it was: no call
  to the client, no timer set or cleared, \<open>currentClientId\<close>, \<open>lastSwitchTime\<close> and
  \<open>switchTimeout\<close> unchanged. This holds for every \<open>now\<close>, also less than 15 seconds
  after the last switch: the rate limit is not looked at.
\<close>

theorem switchClient_connected_identity:
  assumes "newClientId = currentClientId st" and "clientConnected st"
  shows "switchClient newClientId now st = (Resolved True, st)"
  using assms by (simp add: switchClient_def)

theorem switchClient_connected_identity_witness:
  "switchClient ''1000'' 5 ((newApp sampleConfig 0)\<lparr>clientConnected := True\<rparr>)
     = (Resolved True, (newApp sampleConfig 0)\<lparr>clientConnected := True\<rparr>)"
  using switchClient_connected_identity
          [of "''1000''" "(newApp sampleConfig 0)\<lparr>clientConnected := True\<rparr>" 5]
  by (simp add: newApp_def sampleConfig_def)

section \<open>Invariants of the multi-application program\<close>

text \<open>The program starts in a well-formed state, and every step keeps the state well-formed.\<close>

lemma wf_newApp: "wellFormed (newApp config now)"
  by (simp add: wellFormed_def handlesFresh_def newApp_def)

lemma wellFormedD:
  assumes "wellFormed st"
  shows "\<And>t. t \<in> set (pending st) \<Longrightarrow> handle t < nextHandle st"
    and "distinct (map handle (pending st))"
    and "\<And>h. updateIntervalTimer st = Some h \<Longrightarrow> h < nextHandle st"
    and "\<And>h. switchTimeout st = Some h \<Longrightarrow> h < nextHandle st"
    and "\<And>t. t \<in> set (pending st) \<Longrightarrow> updateIntervalTimer st = Some (handle t) \<Longrightarrow> kind t = PollTick"
    and "\<And>t. t \<in> set (pending st) \<Longrightarrow> isSwitch (kind t) = (switchTimeout st = Some (handle t))"
    and "isReconnecting st \<Longrightarrow> \<exists>t \<in> set (pending st). kind t = ReconnectFire"
  using assms unfolding wellFormed_def handlesFresh_def by blast+

text \<open>Adding a timer under the next handle.\<close>

lemma wf_add:
  assumes wf: "wellFormed st"
    and p: "pending s = pending st @ [\<lparr>handle = nextHandle st, kind = k, delay = d, setAt = now\<rparr>]"
    and n: "nextHandle s = Suc (nextHandle st)"
    and u: "updateIntervalTimer s = updateIntervalTimer st \<or> (k = PollTick \<and> updateIntervalTimer s = Some (nextHandle st))"
    and w: "switchTimeout s = switchTimeout st \<and> \<not> isSwitch k \<or>
            (isSwitch k \<and> switchTimeout s = Some (nextHandle st) \<and> (\<forall>t \<in> set (pending st). \<not> isSwitch (kind t)))"
    and r: "isReconnecting s \<Longrightarrow> isReconnecting st \<or> k = ReconnectFire"
  shows "wellFormed s"
proof -
  note d = wellFormedD [OF wf]
  let ?new = "\<lparr>handle = nextHandle st, kind = k, delay = d, setAt = now\<rparr>"
  have mem: "\<And>t. t \<in> set (pending s) \<Longrightarrow> t \<in> set (pending st) \<or> t = ?new"
    by (simp add: p) blast
  have 1: "handlesFresh s"
    unfolding handlesFresh_def
  proof
    fix t assume "t \<in> set (pending s)"
    with mem have "t \<in> set (pending st) \<or> t = ?new" by blast
    then show "handle t < nextHandle s" using d(1) by (auto simp: n less_SucI)
  qed
  have notin: "nextHandle st \<notin> handle ` set (pending st)"
  proof
    assume "nextHandle st \<in> handle ` set (pending st)"
    then obtain t where "t \<in> set (pending st)" and "handle t = nextHandle st" by auto
    with d(1) [of t] show False by simp
  qed
  have nu: "updateIntervalTimer st \<noteq> Some (nextHandle st)"
    using d(3) [of "nextHandle st"] by auto
  have ns: "switchTimeout st \<noteq> Some (nextHandle st)"
    using d(4) [of "nextHandle st"] by auto
  have 2: "distinct (map handle (pending s))"
    using d(2) notin by (simp add: p)
  have 3: "\<forall>h. updateIntervalTimer s = Some h \<longrightarrow> h < nextHandle s"
    using u d(3) by (auto simp: n less_SucI)
  have 4: "\<forall>h. switchTimeout s = Some h \<longrightarrow> h < nextHandle s"
    using w d(4) by (auto simp: n less_SucI)
  have 5: "\<forall>t \<in> set (pending s). updateIntervalTimer s = Some (handle t) \<longrightarrow> kind t = PollTick"
  proof (intro ballI impI)
    fix t assume t: "t \<in> set (pending s)" and e: "updateIntervalTimer s = Some (handle t)"
    from mem [OF t] show "kind t = PollTick"
    proof
      assume old: "t \<in> set (pending st)"
      with d(1) have "handle t < nextHandle st" by simp
      with u e have "updateIntervalTimer st = Some (handle t)" by auto
      with old d(5) show ?thesis by simp
    next
      assume "t = ?new"
      with u e nu show ?thesis by auto
    qed
  qed
  have 6: "\<forall>t \<in> set (pending s). isSwitch (kind t) = (switchTimeout s = Some (handle t))"
  proof
    fix t assume t: "t \<in> set (pending s)"
    from mem [OF t] show "isSwitch (kind t) = (switchTimeout s = Some (handle t))"
    proof
      assume old: "t \<in> set (pending st)"
      with d(1) have lt: "handle t < nextHandle st" by simp
      from old d(6) have "isSwitch (kind t) = (switchTimeout st = Some (handle t))" by simp
      with w old lt show ?thesis by auto
    next
      assume new: "t = ?new"
      from w show ?thesis
      proof
        assume "switchTimeout s = switchTimeout st \<and> \<not> isSwitch k"
        with new ns show ?thesis by auto
      next
        assume "isSwitch k \<and> switchTimeout s = Some (nextHandle st) \<and> (\<forall>t \<in> set (pending st). \<not> isSwitch (kind t))"
        with new show ?thesis by simp
      qed
    qed
  qed
  have 7: "isReconnecting s \<longrightarrow> (\<exists>t \<in> set (pending s). kind t = ReconnectFire)"
    using r d(7) by (auto simp: p)
  show ?thesis
    unfolding wellFormed_def using 1 2 3 4 5 6 7 by blast
qed


text \<open>Clearing the timers with a given handle.\<close>

lemma wf_remove:
  assumes wf: "wellFormed st"
    and p: "pending s = filter (\<lambda>t. handle t \<noteq> h) (pending st)"
    and n: "nextHandle s = nextHandle st"
    and u: "updateIntervalTimer s = updateIntervalTimer st \<or> updateIntervalTimer s = None"
    and w: "switchTimeout s = switchTimeout st \<or> (switchTimeout s = None \<and> switchTimeout st = Some h)"
    and r: "isReconnecting s \<Longrightarrow>
              isReconnecting st \<and> (\<forall>t \<in> set (pending st). handle t = h \<longrightarrow> kind t \<noteq> ReconnectFire)"
  shows "wellFormed s"
proof -
  note d = wellFormedD [OF wf]
  have mem: "\<And>t. t \<in> set (pending s) \<Longrightarrow> t \<in> set (pending st) \<and> handle t \<noteq> h"
    by (simp add: p)
  have 1: "handlesFresh s"
    unfolding handlesFresh_def using mem d(1) by (simp add: n)
  have 2: "distinct (map handle (pending s))"
    using d(2) by (simp add: p distinct_map_filter)
  have 3: "\<forall>h. updateIntervalTimer s = Some h \<longrightarrow> h < nextHandle s"
    using u d(3) by (auto simp: n)
  have 4: "\<forall>h. switchTimeout s = Some h \<longrightarrow> h < nextHandle s"
    using w d(4) by (auto simp: n)
  have 5: "\<forall>t \<in> set (pending s). updateIntervalTimer s = Some (handle t) \<longrightarrow> kind t = PollTick"
  proof (intro ballI impI)
    fix t assume t: "t \<in> set (pending s)" and e: "updateIntervalTimer s = Some (handle t)"
    from u e have "updateIntervalTimer st = Some (handle t)" by auto
    with mem [OF t] d(5) show "kind t = PollTick" by simp
  qed
  have 6: "\<forall>t \<in> set (pending s). isSwitch (kind t) = (switchTimeout s = Some (handle t))"
  proof
    fix t assume t: "t \<in> set (pending s)"
    with mem have old: "t \<in> set (pending st)" and ne: "handle t \<noteq> h" by simp_all
    from old d(6) have "isSwitch (kind t) = (switchTimeout st = Some (handle t))" by simp
    with w ne show "isSwitch (kind t) = (switchTimeout s = Some (handle t))" by auto
  qed
  have 7: "isReconnecting s \<longrightarrow> (\<exists>t \<in> set (pending s). kind t = ReconnectFire)"
  proof
    assume a: "isReconnecting s"
    with r have "isReconnecting st"
      and k: "\<forall>t \<in> set (pending st). handle t = h \<longrightarrow> kind t \<noteq> ReconnectFire" by simp_all
    with d(7) obtain t where t: "t \<in> set (pending st)" "kind t = ReconnectFire" by blast
    with k have "handle t \<noteq> h" by blast
    with t show "\<exists>t \<in> set (pending s). kind t = ReconnectFire" by (auto simp: p)
  qed
  show ?thesis
    unfolding wellFormed_def using 1 2 3 4 5 6 7 by blast
qed

lemma wf_frame:
  assumes wf: "wellFormed st"
    and "pending s = pending st" "nextHandle s = nextHandle st"
    and "updateIntervalTimer s = updateIntervalTimer st" "switchTimeout s = switchTimeout st"
    and "isReconnecting s \<Longrightarrow> isReconnecting st"
  shows "wellFormed s"
  using wf unfolding wellFormed_def handlesFresh_def assms(2-5) using assms(6) by blast

lemma findTimer_Some:
  "findTimer h st = Some t \<Longrightarrow> t \<in> set (pending st) \<and> handle t = h"
  by (auto simp: findTimer_def find_Some_iff)

lemma same_handle:
  assumes "wellFormed st" "t \<in> set (pending st)" "u \<in> set (pending st)" "handle t = handle u"
  shows "t = u"
proof -
  from wellFormedD(2) [OF assms(1)] have "inj_on handle (set (pending st))"
    by (simp add: distinct_map)
  with assms(2-4) show ?thesis by (simp add: inj_on_def)
qed

lemma wf_call: "wellFormed st \<Longrightarrow> wellFormed (call c st)"
  by (erule wf_frame) (simp_all add: call_def)

lemma wf_reconnect: "wellFormed st \<Longrightarrow> wellFormed (reconnect now st)"
proof (cases "isReconnecting st")
  case True
  assume "wellFormed st"
  with True show ?thesis by (simp add: reconnect_def)
next
  case False
  assume wf: "wellFormed st"
  show ?thesis
    by (rule wf_add [OF wf, where k = ReconnectFire])
       (simp_all add: reconnect_def False setTimer_def Let_def isSwitch_def)
qed

lemma wf_clear_poll:
  assumes wf: "wellFormed st" and u: "updateIntervalTimer st = Some h"
  shows "wellFormed (clearTimer h st)"
proof (rule wf_remove [OF wf, where h = h])
  show "isReconnecting (clearTimer h st) \<Longrightarrow>
          isReconnecting st \<and> (\<forall>t \<in> set (pending st). handle t = h \<longrightarrow> kind t \<noteq> ReconnectFire)"
    using wellFormedD(5) [OF wf] u by (auto simp: clearTimer_def)
qed (simp_all add: clearTimer_def)

lemma wf_clear_switch:
  assumes wf: "wellFormed st" and u: "switchTimeout st = Some h"
  shows "wellFormed (clearTimer h st)"
proof (rule wf_remove [OF wf, where h = h])
  show "isReconnecting (clearTimer h st) \<Longrightarrow>
          isReconnecting st \<and> (\<forall>t \<in> set (pending st). handle t = h \<longrightarrow> kind t \<noteq> ReconnectFire)"
  proof (intro conjI ballI impI)
    assume "isReconnecting (clearTimer h st)"
    then show "isReconnecting st" by (simp add: clearTimer_def)
  next
    fix t assume t: "t \<in> set (pending st)" and e: "handle t = h"
    from wellFormedD(6) [OF wf t] u e have "isSwitch (kind t)" by simp
    then show "kind t \<noteq> ReconnectFire" by (auto simp: isSwitch_def)
  qed
qed (simp_all add: clearTimer_def)

lemma wf_startActivityTracking:
  assumes wf: "wellFormed st"
  shows "wellFormed (startActivityTracking config now st)"
proof -
  define st1 where "st1 = (case updateIntervalTimer st of Some h \<Rightarrow> clearTimer h st | None \<Rightarrow> st)"
  have wf1: "wellFormed st1"
    unfolding st1_def using wf by (auto split: option.split intro: wf_clear_poll)
  have eq: "startActivityTracking config now st =
              (snd (setTimer PollTick (updateInterval config) now st1))\<lparr>updateIntervalTimer := Some (nextHandle st1)\<rparr>"
    by (simp add: startActivityTracking_def st1_def setTimer_def Let_def)
  show ?thesis
    unfolding eq
    by (rule wf_add [OF wf1, where k = PollTick]) (simp_all add: setTimer_def isSwitch_def)
qed


lemma wf_onReady: "wellFormed st \<Longrightarrow> wellFormed (onReady config now st)"
  unfolding onReady_def
  by (rule wf_startActivityTracking) (erule wf_frame, simp_all)

lemma wf_onError: "wellFormed st \<Longrightarrow> wellFormed (onError now st)"
  unfolding onError_def Let_def
  by (auto intro!: wf_reconnect elim: wf_frame)

lemma wf_onDisconnected: "wellFormed st \<Longrightarrow> wellFormed (onDisconnected now st)"
  unfolding onDisconnected_def Let_def
  by (auto intro!: wf_reconnect elim: wf_frame)

lemma wf_start: "wellFormed st \<Longrightarrow> wellFormed (start config res now st)"
proof (cases res)
  case LoginOk
  assume "wellFormed st"
  then have "wellFormed (onReady config now (call (Login (defaultClientId config)) st))"
    by (intro wf_onReady wf_call)
  then show ?thesis
    unfolding start_def Let_def LoginOk by (simp, elim wf_frame) simp_all
next
  case LoginFail
  assume "wellFormed st"
  then show ?thesis
    unfolding start_def Let_def LoginFail by (simp add: wf_reconnect wf_call)
qed

lemma wf_reconnectCallback:
  assumes wf: "wellFormed (st\<lparr>isReconnecting := False\<rparr>)"
  shows "wellFormed (reconnectCallback config res now st)"
  unfolding reconnectCallback_def using wf by (rule wf_start)

lemma wf_switchClient:
  assumes wf: "wellFormed st"
  shows "wellFormed (snd (switchClient newClientId now st))"
proof -
  define st1 where "st1 = (case switchTimeout st of Some h \<Rightarrow> clearTimer h st | None \<Rightarrow> st)"
  have wf1: "wellFormed st1"
    unfolding st1_def using wf by (auto split: option.split intro: wf_clear_switch)
  have none: "\<forall>t \<in> set (pending st1). \<not> isSwitch (kind t)"
  proof
    fix t assume t: "t \<in> set (pending st1)"
    show "\<not> isSwitch (kind t)"
    proof (cases "switchTimeout st")
      case None
      with t have "t \<in> set (pending st)" by (simp add: st1_def)
      with wellFormedD(6) [OF wf] None show ?thesis by simp
    next
      case (Some h)
      with t have "t \<in> set (pending st)" "handle t \<noteq> h" by (simp_all add: st1_def clearTimer_def)
      with wellFormedD(6) [OF wf] Some show ?thesis by auto
    qed
  qed
  have wf2: "wellFormed ((snd (setTimer (SwitchFire newClientId) 3000 now st1))\<lparr>switchTimeout := Some (nextHandle st1)\<rparr>)"
    by (rule wf_add [OF wf1, where k = "SwitchFire newClientId"])
       (simp_all add: setTimer_def isSwitch_def none [unfolded isSwitch_def])
  show ?thesis
    using wf wf2 by (simp add: switchClient_def st1_def setTimer_def Let_def)
qed

lemma wf_switchCallback:
  assumes wf: "wellFormed st"
  shows "wellFormed (snd (switchCallback config newClientId res now st))"
proof -
  define st1 where "st1 = (if clientConnected st then (call Destroy st)\<lparr>clientConnected := False\<rparr> else st)"
  define st2 where "st2 = call (Login newClientId) (call NewClient st1)"
  have "wellFormed st1"
    unfolding st1_def using wf by (auto elim!: wf_frame simp: call_def)
  then have wf2: "wellFormed st2"
    unfolding st2_def by (intro wf_call)
  then have "wellFormed ((onReady config now st2)\<lparr>currentClientId := newClientId, lastSwitchTime := now\<rparr>)"
    by (elim wf_frame [OF wf_onReady]) simp_all
  with wf2 show ?thesis
    by (cases res) (simp_all add: switchCallback_def Let_def st1_def st2_def)
qed

lemma wf_pollTick:
  assumes wf: "wellFormed st"
  shows "wellFormed (pollTick config env now st)"
proof -
  obtain activity appType processName t
    where g: "getCurrentActivity config env (activityTracker st) = ((activity, appType, processName), t)"
    by (metis prod_cases3 surj_pair)
  have wf1: "wellFormed (st\<lparr>activityTracker := t\<rparr>)"
    using wf by (elim wf_frame) simp_all
  show ?thesis
    unfolding pollTick_def g Let_def
    by (simp add: wf1 wf_call wf_switchClient)
qed

lemma wf_stop:
  assumes wf: "wellFormed st"
  shows "wellFormed (stop st)"
proof -
  define st1 where "st1 = (case updateIntervalTimer st of
                   Some h \<Rightarrow> (clearTimer h st)\<lparr>updateIntervalTimer := None\<rparr> | None \<Rightarrow> st)"
  define st2 where "st2 = (case switchTimeout st1 of
                   Some h \<Rightarrow> (clearTimer h st1)\<lparr>switchTimeout := None\<rparr> | None \<Rightarrow> st1)"
  have wf1: "wellFormed st1"
  proof (cases "updateIntervalTimer st")
    case None
    with wf show ?thesis by (simp add: st1_def)
  next
    case (Some h)
    have "wellFormed ((clearTimer h st)\<lparr>updateIntervalTimer := None\<rparr>)"
      by (rule wf_frame [OF wf_remove [OF wf, where h = h and s = "(clearTimer h st)\<lparr>updateIntervalTimer := None\<rparr>"]])
         (use wellFormedD(5) [OF wf] Some in \<open>auto simp: clearTimer_def\<close>)
    with Some show ?thesis by (simp add: st1_def)
  qed
  have wf2: "wellFormed st2"
  proof (cases "switchTimeout st1")
    case None
    with wf1 show ?thesis by (simp add: st2_def)
  next
    case (Some h)
    have "wellFormed ((clearTimer h st1)\<lparr>switchTimeout := None\<rparr>)"
    proof (rule wf_remove [OF wf1, where h = h])
      show "isReconnecting ((clearTimer h st1)\<lparr>switchTimeout := None\<rparr>) \<Longrightarrow>
          isReconnecting st1 \<and> (\<forall>t \<in> set (pending st1). handle t = h \<longrightarrow> kind t \<noteq> ReconnectFire)"
      proof (intro conjI ballI impI)
        assume "isReconnecting ((clearTimer h st1)\<lparr>switchTimeout := None\<rparr>)"
        then show "isReconnecting st1" by (simp add: clearTimer_def)
      next
        fix t assume t: "t \<in> set (pending st1)" and e: "handle t = h"
        from wellFormedD(6) [OF wf1 t] Some e have "isSwitch (kind t)" by simp
        then show "kind t \<noteq> ReconnectFire" by (auto simp: isSwitch_def)
      qed
    qed (simp_all add: clearTimer_def Some)
    with Some show ?thesis by (simp add: st2_def)
  qed
  have eq: "stop st = call Destroy st2"
    unfolding stop_def st2_def st1_def Let_def by (rule refl)
  show ?thesis
    unfolding eq by (rule wf_call [OF wf2])
qed

lemma wf_fire:
  assumes wf: "wellFormed st"
  shows "wellFormed (fire config h res env now st)"
proof (cases "findTimer h st")
  case None
  with wf show ?thesis by (simp add: fire_def)
next
  case (Some t)
  then have t: "t \<in> set (pending st)" and ht: "handle t = h" by (simp_all add: findTimer_Some)
  have only: "\<And>u. u \<in> set (pending st) \<Longrightarrow> handle u = h \<Longrightarrow> u = t"
    using same_handle [OF wf _ t] ht by simp
  show ?thesis
  proof (cases "kind t")
    case PollTick
    with Some wf show ?thesis by (simp add: fire_def wf_pollTick)
  next
    case (SwitchFire newClientId)
    have "wellFormed (clearTimer h st)"
      by (rule wf_remove [OF wf, where h = h]) (use only SwitchFire in \<open>auto simp: clearTimer_def\<close>)
    with Some SwitchFire show ?thesis by (simp add: fire_def wf_switchCallback)
  next
    case ReconnectFire
    have "wellFormed ((clearTimer h st)\<lparr>isReconnecting := False\<rparr>)"
      by (rule wf_remove [OF wf, where h = h]) (simp_all add: clearTimer_def)
    with Some ReconnectFire show ?thesis by (simp add: fire_def wf_reconnectCallback)
  qed
qed

lemma wf_step: "wellFormed st \<Longrightarrow> wellFormed (step config te st)"
  by (cases te, cases "snd te")
     (simp_all add: step_def wf_start wf_onReady wf_onError wf_onDisconnected wf_fire wf_stop)

lemma wf_fold: "wellFormed st \<Longrightarrow> wellFormed (fold (step config) evs st)"
  by (induction evs arbitrary: st) (simp_all add: wf_step)

lemma wf_run: "wellFormed (run config evs (newApp config now))"
  unfolding run_def by (rule wf_fold [OF wf_newApp])

section \<open>Requests to switch the client\<close>

lemma find_append:
  "find P (xs @ ys) = (case find P xs of None \<Rightarrow> find P ys | Some x \<Rightarrow> Some x)"
  by (induction xs) simp_all

lemma findTimer_fresh:
  assumes "handlesFresh st" and "set ts \<subseteq> set (pending st)"
  shows "find (\<lambda>t. handle t = nextHandle st) (ts @ [\<lparr>handle = nextHandle st, kind = k, delay = d, setAt = now\<rparr>])
           = Some \<lparr>handle = nextHandle st, kind = k, delay = d, setAt = now\<rparr>"
proof -
  have "find (\<lambda>t. handle t = nextHandle st) ts = None"
    using assms unfolding handlesFresh_def find_None_iff by fastforce
  then show ?thesis by (simp add: find_append)
qed

text \<open>
  What a request that is neither for the connected client nor within the rate limit
  does: every pending switch timer is cleared and a new one is set.
\<close>

lemma switchClient_deferred:
  assumes wf: "wellFormed st"
    and other: "\<not> (newClientId = currentClientId st \<and> clientConnected st)"
    and rate: "15000 \<le> now - lastSwitchTime st"
  shows "switchClient newClientId now st =
           (Deferred,
            st\<lparr>pending := filter (\<lambda>t. \<not> isSwitch (kind t)) (pending st) @
                            [\<lparr>handle = nextHandle st, kind = SwitchFire newClientId,
                              delay = 3000, setAt = now\<rparr>],
               nextHandle := Suc (nextHandle st),
               switchTimeout := Some (nextHandle st)\<rparr>)"
proof -
  have st1: "(case switchTimeout st of Some h \<Rightarrow> clearTimer h st | None \<Rightarrow> st)
               = st\<lparr>pending := filter (\<lambda>t. \<not> isSwitch (kind t)) (pending st)\<rparr>"
  proof (cases "switchTimeout st")
    case None
    with wellFormedD(6) [OF wf] have "\<forall>t \<in> set (pending st). \<not> isSwitch (kind t)" by simp
    then have "filter (\<lambda>t. \<not> isSwitch (kind t)) (pending st) = pending st" by simp
    with None show ?thesis by simp
  next
    case (Some h)
    with wellFormedD(6) [OF wf]
    have "\<forall>t \<in> set (pending st). (handle t \<noteq> h) = (\<not> isSwitch (kind t))" by auto
    then have "filter (\<lambda>t. handle t \<noteq> h) (pending st) = filter (\<lambda>t. \<not> isSwitch (kind t)) (pending st)"
      by (simp cong: filter_cong)
    with Some show ?thesis by (simp add: clearTimer_def)
  qed
  from other rate show ?thesis
    unfolding switchClient_def Let_def st1 by (auto simp: setTimer_def)
qed

lemma switchClient_dropped:
  assumes "\<not> (newClientId = currentClientId st \<and> clientConnected st)"
    and "now - lastSwitchTime st < 15000"
  shows "switchClient newClientId now st = (Resolved False, st)"
  using assms by (auto simp: switchClient_def)


lemma fire_switch:
  assumes "findTimer h st = Some t" and "kind t = SwitchFire X"
  shows "fire config h res env now st = snd (switchCallback config X res now (clearTimer h st))"
  using assms by (simp add: fire_def)

lemma switchCallback_ok:
  "currentClientId (snd (switchCallback config X LoginOk now st)) = X"
  "lastSwitchTime (snd (switchCallback config X LoginOk now st)) = now"
  "clientConnected (snd (switchCallback config X LoginOk now st))"
  "calls (snd (switchCallback config X LoginOk now st))
     = calls st @ (if clientConnected st then [Destroy] else []) @ [NewClient, Login X]"
  by (simp_all add: switchCallback_def onReady_def startActivityTracking_def setTimer_def
        clearTimer_def call_def Let_def split: option.split)

lemma switchCallback_pending:
  "set (pending (snd (switchCallback config X res now st)))
     \<subseteq> set (pending st) \<union> {t. kind t = PollTick}"
  by (cases res)
     (auto simp: switchCallback_def onReady_def startActivityTracking_def setTimer_def
        clearTimer_def call_def Let_def split: option.split)

lemma findTimer_None_iff:
  "findTimer h st = None \<longleftrightarrow> (\<forall>t \<in> set (pending st). handle t \<noteq> h)"
  by (auto simp: findTimer_def find_None_iff)

lemma wf_connectedApp: "wellFormed connectedApp"
  unfolding connectedApp_def by (intro wf_start wf_newApp)

lemma wf_switchedApp: "wellFormed switchedApp"
  unfolding switchedApp_def by (intro wf_fire wf_switchClient wf_connectedApp)

lemma connectedApp_fields:
  "currentClientId connectedApp = ''1000''" "clientConnected connectedApp"
  "lastSwitchTime connectedApp = 0" "nextHandle connectedApp = 1"
  "calls connectedApp = [NewClient, Login ''1000'']"
  by (simp_all add: connectedApp_def start_def onReady_def startActivityTracking_def
        setTimer_def call_def newApp_def sampleConfig_def Let_def)

lemma switchedApp_fields:
  "currentClientId switchedApp = ''3000''" "lastSwitchTime switchedApp = 1013000"
  "nextHandle switchedApp = 3"
  by code_simp+

text \<open>
  Claim C7. A request for another client than the connected one that comes less than 15
  seconds after \<open>lastSwitchTime\<close> resolves to \<open>false\<close> and leaves the whole state as it
  was: no timer, no call to the client, nothing kept for later. A request that comes 15
  seconds after it or later sets the switch timer with a delay of 3 seconds; the client
  id stays until the timer fires, and when it fires and the login succeeds the requested
  client is the current one and \<open>lastSwitchTime\<close> is the time of that completion.
\<close>

theorem switchClient_rate_limit:
  assumes wf: "wellFormed st"
    and other: "\<not> (Y = currentClientId st \<and> clientConnected st)"
  shows
    "(now - lastSwitchTime st < 15000 \<longrightarrow> switchClient Y now st = (Resolved False, st)) \<and>
     (15000 \<le> now - lastSwitchTime st \<longrightarrow>
        (let s = snd (switchClient Y now st);
             s' = fire config (nextHandle st) LoginOk env now' s
         in fst (switchClient Y now st) = Deferred \<and>
            findTimer (nextHandle st) s =
              Some \<lparr>handle = nextHandle st, kind = SwitchFire Y, delay = 3000, setAt = now\<rparr> \<and>
            currentClientId s = currentClientId st \<and> calls s = calls st \<and>
            currentClientId s' = Y \<and> clientConnected s' \<and> lastSwitchTime s' = now'))"
proof (intro conjI impI)
  assume "now - lastSwitchTime st < 15000"
  with other show "switchClient Y now st = (Resolved False, st)"
    by (rule switchClient_dropped)
next
  assume rate: "15000 \<le> now - lastSwitchTime st"
  let ?new = "\<lparr>handle = nextHandle st, kind = SwitchFire Y, delay = 3000, setAt = now\<rparr>"
  note sw = switchClient_deferred [OF wf other rate]
  have found: "findTimer (nextHandle st) (snd (switchClient Y now st)) = Some ?new"
    unfolding sw findTimer_def using wellFormedD(1) [OF wf]
    by (simp add: findTimer_fresh handlesFresh_def)
  have fired: "fire config (nextHandle st) LoginOk env now' (snd (switchClient Y now st))
                 = snd (switchCallback config Y LoginOk now' (clearTimer (nextHandle st) (snd (switchClient Y now st))))"
    by (rule fire_switch [OF found]) simp
  show "let s = snd (switchClient Y now st);
            s' = fire config (nextHandle st) LoginOk env now' s
        in fst (switchClient Y now st) = Deferred \<and>
           findTimer (nextHandle st) s = Some ?new \<and>
           currentClientId s = currentClientId st \<and> calls s = calls st \<and>
           currentClientId s' = Y \<and> clientConnected s' \<and> lastSwitchTime s' = now'"
    unfolding Let_def fired using found by (simp add: sw switchCallback_ok)
qed


theorem switchClient_rate_limit_witness:
  "switchClient ''2000'' 1023000 switchedApp = (Resolved False, switchedApp) \<and>
   fst (switchClient ''2000'' 1029000 switchedApp) = Deferred \<and>
   currentClientId (fire sampleConfig 3 LoginOk (sampleEnv [] [] 0) 1032000
       (snd (switchClient ''2000'' 1029000 switchedApp))) = ''2000''"
  using switchClient_rate_limit
          [OF wf_switchedApp, of "''2000''" 1023000 sampleConfig "sampleEnv [] [] 0" 0]
    switchClient_rate_limit
          [OF wf_switchedApp, of "''2000''" 1029000 sampleConfig "sampleEnv [] [] 0" 1032000]
  by (simp add: switchedApp_fields Let_def)

text \<open>
  Claim C6. Two requests, for \<open>B\<close> at \<open>t1\<close> and for \<open>C\<close> at \<open>t2\<close>, neither for the
  connected client, outside the rate limit and less than 3 seconds apart, so that the
  timer of the first has not fired when the second comes: the first request sets a switch
  timer; the second clears it and sets its own, which is then the only pending switch
  timer; nothing has been called on the client so far. The callback of the first timer
  never runs. When the second timer fires and the login succeeds, the client has been
  torn down (if it was connected) and created anew once, logged in with \<open>C\<close>, and no
  switch timer is left.
\<close>

theorem switchClient_debounce:
  assumes wf: "wellFormed st"
    and notB: "\<not> (B = currentClientId st \<and> clientConnected st)"
    and notC: "\<not> (C = currentClientId st \<and> clientConnected st)"
    and rate: "15000 \<le> t1 - lastSwitchTime st"
    and times: "t1 \<le> t2" "t2 < t1 + 3000"
    and s1: "s1 = snd (switchClient B t1 st)"
    and s2: "s2 = snd (switchClient C t2 s1)"
    and s3: "s3 = fire config (nextHandle s1) LoginOk env t3 s2"
  shows "findTimer (nextHandle st) s1 =
           Some \<lparr>handle = nextHandle st, kind = SwitchFire B, delay = 3000, setAt = t1\<rparr> \<and>
         findTimer (nextHandle st) s2 = None \<and>
         filter (\<lambda>t. isSwitch (kind t)) (pending s2) =
           [\<lparr>handle = nextHandle s1, kind = SwitchFire C, delay = 3000, setAt = t2\<rparr>] \<and>
         calls s2 = calls st \<and> currentClientId s2 = currentClientId st \<and>
         fire config (nextHandle st) res env' t3 s2 = s2 \<and>
         currentClientId s3 = C \<and>
         calls s3 = calls st @ (if clientConnected st then [Destroy] else []) @ [NewClient, Login C] \<and>
         filter (\<lambda>t. isSwitch (kind t)) (pending s3) = []"
proof -
  let ?tB = "\<lparr>handle = nextHandle st, kind = SwitchFire B, delay = 3000, setAt = t1\<rparr>"
  let ?tC = "\<lparr>handle = Suc (nextHandle st), kind = SwitchFire C, delay = 3000, setAt = t2\<rparr>"
  let ?keep = "filter (\<lambda>t. \<not> isSwitch (kind t)) (pending st)"
  note d = wellFormedD [OF wf]
  have e1: "s1 = st\<lparr>pending := ?keep @ [?tB], nextHandle := Suc (nextHandle st),
                     switchTimeout := Some (nextHandle st)\<rparr>"
    unfolding s1 by (simp add: switchClient_deferred [OF wf notB rate])
  have wf1: "wellFormed s1"
    unfolding s1 by (rule wf_switchClient [OF wf])
  have notC1: "\<not> (C = currentClientId s1 \<and> clientConnected s1)"
    using notC by (simp add: e1)
  have rate1: "15000 \<le> t2 - lastSwitchTime s1"
    using rate times by (simp add: e1)
  have e2: "s2 = st\<lparr>pending := ?keep @ [?tC], nextHandle := Suc (Suc (nextHandle st)),
                     switchTimeout := Some (Suc (nextHandle st))\<rparr>"
    unfolding s2 by (simp add: switchClient_deferred [OF wf1 notC1 rate1]) (simp add: e1 isSwitch_def)
  have low: "\<And>t. t \<in> set (pending st) \<Longrightarrow>
                 handle t \<noteq> nextHandle st \<and> handle t \<noteq> Suc (nextHandle st)"
  proof -
    fix t assume "t \<in> set (pending st)"
    then have "handle t < nextHandle st" by (rule d(1))
    then show "handle t \<noteq> nextHandle st \<and> handle t \<noteq> Suc (nextHandle st)" by simp
  qed
  have 1: "findTimer (nextHandle st) s1 = Some ?tB"
    unfolding e1 findTimer_def using d(1)
    by (simp add: findTimer_fresh handlesFresh_def)
  have 2: "findTimer (nextHandle st) s2 = None"
    unfolding findTimer_None_iff by (simp add: e2 low)
  have 3: "filter (\<lambda>t. isSwitch (kind t)) (pending s2) = [?tC]"
    by (simp add: e2 isSwitch_def)
  have 4: "fire config (nextHandle st) res env' t3 s2 = s2"
    using 2 by (simp add: fire_def)
  have found: "findTimer (Suc (nextHandle st)) s2 = Some ?tC"
  proof -
    have "find (\<lambda>t. handle t = Suc (nextHandle st)) ?keep = None"
      unfolding find_None_iff by (simp add: low)
    then show ?thesis by (simp add: findTimer_def e2 find_append)
  qed
  have e3: "s3 = snd (switchCallback config C LoginOk t3 (clearTimer (Suc (nextHandle st)) s2))"
    unfolding s3 using fire_switch [OF found, of C] by (simp add: e1)
  have cleared: "pending (clearTimer (Suc (nextHandle st)) s2) = ?keep"
  proof -
    have "filter (\<lambda>t. handle t \<noteq> Suc (nextHandle st)) ?keep = ?keep"
      by (intro filter_True) (simp add: low)
    then show ?thesis by (simp add: clearTimer_def e2)
  qed
  have 5: "filter (\<lambda>t. isSwitch (kind t)) (pending s3) = []"
  proof -
    have "set (pending s3) \<subseteq> set ?keep \<union> {t. kind t = PollTick}"
      unfolding e3 using switchCallback_pending [of config C LoginOk t3 "clearTimer (Suc (nextHandle st)) s2"]
      by (simp add: cleared)
    then have "\<forall>t \<in> set (pending s3). \<not> isSwitch (kind t)"
      by (auto simp: isSwitch_def)
    then show ?thesis by (simp add: filter_empty_conv)
  qed
  have 6: "calls s3 = calls st @ (if clientConnected st then [Destroy] else []) @ [NewClient, Login C]"
    unfolding e3 switchCallback_ok by (simp add: clearTimer_def e2)
  have 7: "currentClientId s3 = C"
    unfolding e3 by (rule switchCallback_ok)
  from 1 2 3 4 5 6 7 show ?thesis
    by (simp add: e1 e2)
qed
theorem switchClient_debounce_witness:
  "calls (fire sampleConfig 2 LoginOk (sampleEnv [] [] 0) 1015000
            (snd (switchClient ''2000'' 1012000 (snd (switchClient ''3000'' 1010000 connectedApp)))))
     = [NewClient, Login ''1000'', Destroy, NewClient, Login ''2000''] \<and>
   currentClientId (fire sampleConfig 2 LoginOk (sampleEnv [] [] 0) 1015000
            (snd (switchClient ''2000'' 1012000 (snd (switchClient ''3000'' 1010000 connectedApp)))))
     = ''2000''"
proof -
  have n: "nextHandle (snd (switchClient ''3000'' 1010000 connectedApp)) = 2"
    by (simp add: switchClient_def connectedApp_fields setTimer_def clearTimer_def Let_def
          split: option.split)
  show ?thesis
    using switchClient_debounce
            [OF wf_connectedApp, of "''3000''" "''2000''" 1010000 1012000 _ _ _
               sampleConfig "sampleEnv [] [] 0" 1015000 LoginOk "sampleEnv [] [] 0",
             OF _ _ _ _ _ refl refl refl]
    by (simp add: connectedApp_fields n)
qed

section \<open>Reconnecting\<close>

lemma backoffTime_bounds: "0 < backoffTime k \<and> backoffTime k \<le> 120000"
  by (simp add: backoffTime_def)

lemma backoffTime_Suc: "backoffTime (Suc k) = min (15000 * (3 / 2) ^ k) 120000"
  by (simp add: backoffTime_def)

lemma backoffTime_first_four:
  "map backoffTime [1, 2, 3, 4] = [15000, 22500, 33750, 50625]"
  by (simp add: backoffTime_def power2_eq_square power3_eq_cube)

text \<open>A failure while no retry is pending sets the reconnect timer under the next handle.\<close>

lemma reconnect_sets:
  assumes "\<not> isReconnecting st"
  shows "pending (reconnect now st) =
           pending st @ [\<lparr>handle = nextHandle st, kind = ReconnectFire,
                            delay = backoffTime (Suc (reconnectAttempts st)), setAt = now\<rparr>]"
    and "nextHandle (reconnect now st) = Suc (nextHandle st)"
    and "reconnectAttempts (reconnect now st) = Suc (reconnectAttempts st)"
    and "isReconnecting (reconnect now st)"
  using assms by (simp_all add: reconnect_def setTimer_def Let_def)

lemma failure_sets:
  assumes "\<not> isReconnecting st" and "isFailure ev"
  shows "pending (step config (now, ev) st) =
           pending st @ [\<lparr>handle = nextHandle st, kind = ReconnectFire,
                            delay = backoffTime (Suc (reconnectAttempts st)), setAt = now\<rparr>]"
    and "nextHandle (step config (now, ev) st) = Suc (nextHandle st)"
    and "reconnectAttempts (step config (now, ev) st) = Suc (reconnectAttempts st)"
    and "isReconnecting (step config (now, ev) st)"
  using assms
  by (auto simp: isFailure_def step_def start_def onError_def onDisconnected_def call_def
        reconnect_sets Let_def)

lemma retry_sets:
  assumes p: "pending st = P @ [\<lparr>handle = m, kind = ReconnectFire, delay = d0, setAt = a0\<rparr>]"
    and low: "\<forall>t \<in> set P. handle t < m"
    and n: "nextHandle st = Suc m"
  shows "pending (step config (now, Fire m LoginFail env) st) =
           P @ [\<lparr>handle = Suc m, kind = ReconnectFire,
                  delay = backoffTime (Suc (reconnectAttempts st)), setAt = now\<rparr>]"
    and "nextHandle (step config (now, Fire m LoginFail env) st) = Suc (Suc m)"
    and "reconnectAttempts (step config (now, Fire m LoginFail env) st) = Suc (reconnectAttempts st)"
    and "isReconnecting (step config (now, Fire m LoginFail env) st)"
proof -
  have none: "find (\<lambda>t. handle t = m) P = None"
    unfolding find_None_iff using low by fastforce
  then have found: "findTimer m st = Some \<lparr>handle = m, kind = ReconnectFire, delay = d0, setAt = a0\<rparr>"
    by (simp add: findTimer_def p find_append)
  have flt: "filter (\<lambda>t. handle t \<noteq> m) P = P"
    using low by (intro filter_True) fastforce
  have eq: "step config (now, Fire m LoginFail env) st =
              reconnect now (call (Login (defaultClientId config)) ((clearTimer m st)\<lparr>isReconnecting := False\<rparr>))"
    by (simp add: step_def fire_def found reconnectCallback_def start_def Let_def)
  show "pending (step config (now, Fire m LoginFail env) st) =
           P @ [\<lparr>handle = Suc m, kind = ReconnectFire,
                  delay = backoffTime (Suc (reconnectAttempts st)), setAt = now\<rparr>]"
    and "nextHandle (step config (now, Fire m LoginFail env) st) = Suc (Suc m)"
    and "reconnectAttempts (step config (now, Fire m LoginFail env) st) = Suc (reconnectAttempts st)"
    and "isReconnecting (step config (now, Fire m LoginFail env) st)"
    unfolding eq by (simp_all add: reconnect_sets call_def clearTimer_def p flt n)
qed

lemma retries_run:
  assumes "pending st = P @ [\<lparr>handle = m, kind = ReconnectFire, delay = backoffTime (reconnectAttempts st), setAt = a0\<rparr>]"
    and "\<forall>t \<in> set P. handle t < m"
    and "nextHandle st = Suc m"
  shows "pending (run config (retries m env ts) st) =
           P @ [\<lparr>handle = m + length ts, kind = ReconnectFire,
                  delay = backoffTime (reconnectAttempts st + length ts), setAt = last (a0 # ts)\<rparr>] \<and>
         reconnectAttempts (run config (retries m env ts) st) = reconnectAttempts st + length ts \<and>
         isReconnecting (run config (retries m env ts) st) = (ts \<noteq> [] \<or> isReconnecting st)"
  using assms
proof (induction ts arbitrary: st m a0)
  case Nil
  then show ?case by (simp add: run_def)
next
  case (Cons t ts)
  let ?s = "step config (t, Fire m LoginFail env) st"
  note r = retry_sets [OF Cons.prems(1) Cons.prems(2) Cons.prems(3), of config t env]
  have low: "\<forall>t \<in> set P. handle t < Suc m"
    using Cons.prems(2) by (simp add: less_SucI)
  have p: "pending ?s = P @ [\<lparr>handle = Suc m, kind = ReconnectFire,
                                delay = backoffTime (reconnectAttempts ?s), setAt = t\<rparr>]"
    by (simp add: r)
  from Cons.IH [OF p low r(2)] show ?case
    by (simp add: run_def r(3) r(4))
qed


text \<open>The single-application program: every failure sets the timer with 15 seconds.\<close>

lemma failure_sets_single:
  assumes "isFailure_single ev"
  shows "pending (step_single config (now, ev) st) =
           pending st @ [\<lparr>handle = nextHandle st, kind = ReconnectFire, delay = 15000, setAt = now\<rparr>]"
    and "nextHandle (step_single config (now, ev) st) = Suc (nextHandle st)"
  using assms
  by (auto simp: isFailure_single_def step_single_def start_single_def reconnect_single_def
        setTimer_def call_def Let_def)

lemma retry_sets_single:
  assumes p: "pending st = P @ [\<lparr>handle = m, kind = ReconnectFire, delay = d0, setAt = a0\<rparr>]"
    and low: "\<forall>t \<in> set P. handle t < m"
    and n: "nextHandle st = Suc m"
  shows "pending (step_single config (now, Fire m LoginFail env) st) =
           P @ [\<lparr>handle = Suc m, kind = ReconnectFire, delay = 15000, setAt = now\<rparr>]"
    and "nextHandle (step_single config (now, Fire m LoginFail env) st) = Suc (Suc m)"
proof -
  have none: "find (\<lambda>t. handle t = m) P = None"
    unfolding find_None_iff using low by fastforce
  then have found: "findTimer m st = Some \<lparr>handle = m, kind = ReconnectFire, delay = d0, setAt = a0\<rparr>"
    by (simp add: findTimer_def p find_append)
  have flt: "filter (\<lambda>t. handle t \<noteq> m) P = P"
    using low by (intro filter_True) fastforce
  show "pending (step_single config (now, Fire m LoginFail env) st) =
           P @ [\<lparr>handle = Suc m, kind = ReconnectFire, delay = 15000, setAt = now\<rparr>]"
    and "nextHandle (step_single config (now, Fire m LoginFail env) st) = Suc (Suc m)"
    by (simp_all add: step_single_def fire_single_def found start_single_def
          reconnect_single_def setTimer_def call_def clearTimer_def p flt n Let_def)
qed

lemma retries_run_single:
  assumes "pending st = P @ [\<lparr>handle = m, kind = ReconnectFire, delay = 15000, setAt = a0\<rparr>]"
    and "\<forall>t \<in> set P. handle t < m"
    and "nextHandle st = Suc m"
  shows "pending (run_single config (retries m env ts) st) =
           P @ [\<lparr>handle = m + length ts, kind = ReconnectFire, delay = 15000,
                  setAt = last (a0 # ts)\<rparr>]"
  using assms
proof (induction ts arbitrary: st m a0)
  case Nil
  then show ?case by (simp add: run_single_def)
next
  case (Cons t ts)
  note r = retry_sets_single [OF Cons.prems(1) Cons.prems(2) Cons.prems(3), of config t env]
  have low: "\<forall>t \<in> set P. handle t < Suc m"
    using Cons.prems(2) by (simp add: less_SucI)
  from Cons.IH [OF r(1) low r(2)] show ?case
    by (simp add: run_single_def)
qed

text \<open>
  Claim C2, as amended. In the multi-application program, after a first connection
  failure and \<open>length ts\<close> retries that fail again, that is after
  \<open>n = length ts + 1\<close> consecutive failures, the one reconnect timer that has been added
  to the pending timers was set with the delay \<open>min (15000 * 1.5 ^ (n - 1)) 120000\<close>
  milliseconds; the delays of the attempts 1 to 4 are 15000, 22500, 33750 and 50625, and
  no delay is above 120000. In the single-application program the delay is 15000
  milliseconds after every failure.
\<close>

theorem reconnect_delays:
  assumes "handlesFresh st" and "\<not> isReconnecting st" and "reconnectAttempts st = 0"
    and "isFailure ev"
    and "handlesFresh st'" and "isFailure_single ev'"
  shows "pending (run config ((t0, ev) # retries (nextHandle st) env ts) st) =
           pending st @ [\<lparr>handle = nextHandle st + length ts, kind = ReconnectFire,
                           delay = min (15000 * (3 / 2) ^ length ts) 120000,
                           setAt = last (t0 # ts)\<rparr>] \<and>
         pending (run_single config' ((t0, ev') # retries (nextHandle st') env ts) st') =
           pending st' @ [\<lparr>handle = nextHandle st' + length ts, kind = ReconnectFire,
                            delay = 15000, setAt = last (t0 # ts)\<rparr>] \<and>
         map backoffTime [1, 2, 3, 4] = [15000, 22500, 33750, 50625] \<and>
         backoffTime n \<le> 120000"
proof -
  let ?s = "step config (t0, ev) st"
  note f = failure_sets [OF assms(2) assms(4), of config t0]
  have p: "pending ?s = pending st @ [\<lparr>handle = nextHandle st, kind = ReconnectFire,
                                        delay = backoffTime (reconnectAttempts ?s), setAt = t0\<rparr>]"
    by (simp add: f)
  have low: "\<forall>t \<in> set (pending st). handle t < nextHandle st"
    using assms(1) by (simp add: handlesFresh_def)
  have multi: "pending (run config ((t0, ev) # retries (nextHandle st) env ts) st) =
           pending st @ [\<lparr>handle = nextHandle st + length ts, kind = ReconnectFire,
                           delay = min (15000 * (3 / 2) ^ length ts) 120000,
                           setAt = last (t0 # ts)\<rparr>]"
    using retries_run [OF p low f(2), of config env ts]
    by (simp add: run_def f(3) assms(3) backoffTime_Suc)
  note g = failure_sets_single [OF assms(6), of config' t0 st']
  have low': "\<forall>t \<in> set (pending st'). handle t < nextHandle st'"
    using assms(5) by (simp add: handlesFresh_def)
  have single: "pending (run_single config' ((t0, ev') # retries (nextHandle st') env ts) st') =
           pending st' @ [\<lparr>handle = nextHandle st' + length ts, kind = ReconnectFire,
                            delay = 15000, setAt = last (t0 # ts)\<rparr>]"
    using retries_run_single [OF g(1) low' g(2), of config' env ts]
    by (simp add: run_single_def)
  from multi single backoffTime_first_four backoffTime_bounds [of n] show ?thesis
    by blast
qed



theorem reconnect_delays_witness:
  "map delay (pending (run sampleConfig
       ((0, Start LoginFail) # retries 0 (sampleEnv [] [] 0) [15000, 37500, 71250])
       (newApp sampleConfig 0))) = [50625] \<and>
   map delay (pending (run_single sampleConfig_single
       ((0, Start LoginFail) # retries 0 (sampleEnv [] [] 0) [15000, 37500, 71250])
       (newApp_single 0))) = [15000]"
  using reconnect_delays [of "newApp sampleConfig 0" "Start LoginFail" "newApp_single 0"
          "Start LoginFail" sampleConfig 0 "sampleEnv [] [] 0" "[15000, 37500, 71250]"
          sampleConfig_single 0]
  by (simp add: handlesFresh_def newApp_def newApp_single_def isFailure_def
        isFailure_single_def power3_eq_cube)


text \<open>
  The claim as it was stated, with the backoff for every reconnect, does not hold of the
  single-application program: its second attempt is delayed by 15 seconds, not by 22.5.
\<close>

theorem reconnect_single_counterexample:
  "\<not> (map delay (pending (run_single sampleConfig_single
         ((0, Start LoginFail) # retries 0 (sampleEnv [] [] 0) [15000])
         (newApp_single 0))) = [min (15000 * (3 / 2) ^ (2 - 1)) 120000])"
  by (simp add: run_single_def step_single_def start_single_def reconnect_single_def
        fire_single_def findTimer_def setTimer_def clearTimer_def call_def newApp_single_def
        Let_def)

lemma dc_newApp: "delaysCapped (newApp config now)"
  by (simp add: delaysCapped_def newApp_def)

lemma dc_frame: "pending s = pending st \<Longrightarrow> delaysCapped s = delaysCapped st"
  by (simp add: delaysCapped_def)

lemma dc_call: "delaysCapped (call c st) = delaysCapped st"
  by (simp add: delaysCapped_def call_def)

lemma dc_clearTimer: "delaysCapped st \<Longrightarrow> delaysCapped (clearTimer h st)"
  by (simp add: delaysCapped_def clearTimer_def)

lemma dc_reconnect: "delaysCapped st \<Longrightarrow> delaysCapped (reconnect now st)"
  by (simp add: delaysCapped_def reconnect_def setTimer_def Let_def backoffTime_bounds)

lemma dc_startActivityTracking:
  "delaysCapped st \<Longrightarrow> delaysCapped (startActivityTracking config now st)"
  by (simp add: delaysCapped_def startActivityTracking_def setTimer_def clearTimer_def Let_def
        split: option.split)

lemma dc_onReady: "delaysCapped st \<Longrightarrow> delaysCapped (onReady config now st)"
  unfolding onReady_def by (rule dc_startActivityTracking) (simp add: delaysCapped_def)

lemma dc_onError:
  assumes "delaysCapped st"
  shows "delaysCapped (onError now st)"
proof -
  have "delaysCapped (st\<lparr>clientConnected := False\<rparr>)"
    using assms by (simp add: delaysCapped_def)
  then show ?thesis
    by (simp add: onError_def Let_def dc_reconnect)
qed

lemma dc_onDisconnected:
  assumes "delaysCapped st"
  shows "delaysCapped (onDisconnected now st)"
proof -
  have "delaysCapped (st\<lparr>clientConnected := False\<rparr>)"
    using assms by (simp add: delaysCapped_def)
  then show ?thesis
    by (simp add: onDisconnected_def Let_def dc_reconnect)
qed

lemma dc_start: "delaysCapped st \<Longrightarrow> delaysCapped (start config res now st)"
proof (cases res)
  case LoginOk
  assume "delaysCapped st"
  then have "delaysCapped (onReady config now (call (Login (defaultClientId config)) st))"
    by (intro dc_onReady) (simp add: dc_call)
  then show ?thesis
    by (simp add: start_def LoginOk delaysCapped_def)
next
  case LoginFail
  assume "delaysCapped st"
  then show ?thesis
    by (simp add: start_def LoginFail dc_reconnect dc_call)
qed

lemma dc_switchClient: "delaysCapped st \<Longrightarrow> delaysCapped (snd (switchClient newClientId now st))"
  by (simp add: delaysCapped_def switchClient_def setTimer_def clearTimer_def Let_def
        split: option.split)

lemma dc_switchCallback:
  assumes "delaysCapped st"
  shows "delaysCapped (snd (switchCallback config newClientId res now st))"
proof -
  have "\<forall>t \<in> set (pending (snd (switchCallback config newClientId res now st))).
          t \<in> set (pending st) \<or> kind t = PollTick"
    using switchCallback_pending [of config newClientId res now st] by blast
  with assms show ?thesis
    unfolding delaysCapped_def by fastforce
qed

lemma dc_pollTick:
  assumes "delaysCapped st"
  shows "delaysCapped (pollTick config env now st)"
proof -
  obtain activity appType processName t
    where g: "getCurrentActivity config env (activityTracker st) = ((activity, appType, processName), t)"
    by (metis prod_cases3 surj_pair)
  have 1: "delaysCapped (st\<lparr>activityTracker := t\<rparr>)"
    using assms by (simp add: delaysCapped_def)
  show ?thesis
    unfolding pollTick_def g Let_def
    by (simp add: 1 dc_call dc_switchClient)
qed

lemma dc_stop: "delaysCapped st \<Longrightarrow> delaysCapped (stop st)"
  by (simp add: delaysCapped_def stop_def clearTimer_def call_def Let_def split: option.split)

lemma dc_fire:
  assumes dc: "delaysCapped st"
  shows "delaysCapped (fire config h res env now st)"
proof (cases "findTimer h st")
  case None
  with dc show ?thesis by (simp add: fire_def)
next
  case (Some t)
  have c: "delaysCapped (clearTimer h st)"
    using dc by (rule dc_clearTimer)
  then have c': "delaysCapped ((clearTimer h st)\<lparr>isReconnecting := False\<rparr>)"
    by (simp add: delaysCapped_def)
  show ?thesis
    by (cases "kind t")
       (simp_all add: fire_def Some dc dc_pollTick dc_switchCallback [OF c]
          reconnectCallback_def dc_start [OF c'])
qed

lemma dc_step: "delaysCapped st \<Longrightarrow> delaysCapped (step config te st)"
  by (cases te, cases "snd te")
     (simp_all add: step_def dc_start dc_onReady dc_onError dc_onDisconnected dc_fire dc_stop)

lemma dc_fold: "delaysCapped st \<Longrightarrow> delaysCapped (fold (step config) evs st)"
  by (induction evs arbitrary: st) (simp_all add: dc_step)

lemma dc_run: "delaysCapped (run config evs (newApp config now))"
  unfolding run_def by (rule dc_fold [OF dc_newApp])

lemma reconnect_keeps: "isReconnecting st \<Longrightarrow> isReconnecting (reconnect now st)"
  by (simp add: reconnect_def)

lemma failure_reconnecting:
  assumes "isFailure ev \<or>
           (\<exists>h env t. ev = Fire h LoginFail env \<and> findTimer h st = Some t \<and> kind t = ReconnectFire)"
  shows "isReconnecting (step config (now, ev) st)"
proof (cases "isFailure ev")
  case True
  show ?thesis
  proof (cases "isReconnecting st")
    case False
    from failure_sets(4) [OF False True] show ?thesis .
  next
    case r: True
    with True show ?thesis
      by (auto simp: isFailure_def step_def start_def onError_def onDisconnected_def call_def
            reconnect_def Let_def)
  qed
next
  case False
  with assms obtain h env t
    where "ev = Fire h LoginFail env" "findTimer h st = Some t" "kind t = ReconnectFire"
    by blast
  then show ?thesis
    by (simp add: step_def fire_def reconnectCallback_def start_def reconnect_def setTimer_def
          call_def clearTimer_def Let_def)
qed

text \<open>
  The failures that lead to \<open>reconnect\<close>. In every state the multi-application program
  can reach, after \<open>start\<close> whose login fails, the event \<open>error\<close>, the event
  \<open>disconnected\<close>, or a retry that fails again, a reconnect timer is pending, and every
  pending reconnect timer was set with a positive delay of at most 120000 milliseconds.
  The number of attempts is not bounded: after \<open>length ts + 1\<close> consecutive failures
  \<open>reconnectAttempts\<close> is that number, whatever it is (\<open>MAX_RECONNECT_ATTEMPTS\<close> is
  never read).
\<close>

theorem reconnect_after_failure:
  assumes st: "st = run config evs (newApp config t0)"
    and fail: "isFailure ev \<or>
           (\<exists>h env t. ev = Fire h LoginFail env \<and> findTimer h st = Some t \<and> kind t = ReconnectFire)"
  shows "(\<exists>t \<in> set (pending (step config (now, ev) st)). kind t = ReconnectFire) \<and>
         (\<forall>t \<in> set (pending (step config (now, ev) st)).
             kind t = ReconnectFire \<longrightarrow> 0 < delay t \<and> delay t \<le> 120000) \<and>
         reconnectAttempts
           (run config ((t1, Start LoginFail) # retries 0 env' ts) (newApp config t0))
           = Suc (length ts)"
proof (intro conjI)
  have "wellFormed (step config (now, ev) st)"
    unfolding st by (intro wf_step wf_run)
  from wellFormedD(7) [OF this failure_reconnecting [OF fail]]
  show "\<exists>t \<in> set (pending (step config (now, ev) st)). kind t = ReconnectFire" .
next
  have "delaysCapped (step config (now, ev) st)"
    unfolding st by (intro dc_step dc_run)
  then show "\<forall>t \<in> set (pending (step config (now, ev) st)).
             kind t = ReconnectFire \<longrightarrow> 0 < delay t \<and> delay t \<le> 120000"
    by (simp add: delaysCapped_def)
next
  let ?init = "newApp config t0"
  let ?s = "step config (t1, Start LoginFail) ?init"
  have nr: "\<not> isReconnecting ?init" by (simp add: newApp_def)
  have fl: "isFailure (Start LoginFail)" by (simp add: isFailure_def)
  note f = failure_sets [OF nr fl, of config t1]
  have p: "pending ?s = [] @ [\<lparr>handle = 0, kind = ReconnectFire,
                               delay = backoffTime (reconnectAttempts ?s), setAt = t1\<rparr>]"
    by (simp add: f) (simp add: newApp_def)
  have n: "nextHandle ?s = Suc 0" by (simp add: f) (simp add: newApp_def)
  have a: "reconnectAttempts ?s = Suc 0" by (simp add: f) (simp add: newApp_def)
  have low: "\<forall>t \<in> set []. handle t < (0::nat)" by simp
  from retries_run [OF p low n, of config env' ts, THEN conjunct2, THEN conjunct1]
  show "reconnectAttempts
           (run config ((t1, Start LoginFail) # retries 0 env' ts) (newApp config t0))
           = Suc (length ts)"
    by (simp add: run_def a)
qed

theorem reconnect_after_failure_witness:
  "(\<exists>t \<in> set (pending (step sampleConfig (5000, Error)
        (run sampleConfig [(0, Start LoginOk)] (newApp sampleConfig 0)))).
      kind t = ReconnectFire) \<and>
   reconnectAttempts (run sampleConfig
       ((0, Start LoginFail) # retries 0 (sampleEnv [] [] 0) [15000, 37500, 71250])
       (newApp sampleConfig 0)) = 4"
  using reconnect_after_failure
          [of "run sampleConfig [(0, Start LoginOk)] (newApp sampleConfig 0)" sampleConfig
              "[(0, Start LoginOk)]" 0 Error 5000 0 "sampleEnv [] [] 0" "[15000, 37500, 71250]",
           OF refl]
  by (simp add: isFailure_def)

subsection \<open>A login that fails in the switch callback\<close>

text \<open>
  The callback of the switch timer, when the login fails, sets no timer and leaves
  \<open>isReconnecting\<close>, \<open>reconnectAttempts\<close> and \<open>currentClientId\<close> as they were; the
  client is not connected afterwards.
\<close>

lemma switchCallback_failure:
  "pending (snd (switchCallback config newClientId LoginFail now st)) = pending st"
  "isReconnecting (snd (switchCallback config newClientId LoginFail now st)) = isReconnecting st"
  "reconnectAttempts (snd (switchCallback config newClientId LoginFail now st)) =
     reconnectAttempts st"
  "currentClientId (snd (switchCallback config newClientId LoginFail now st)) = currentClientId st"
  "\<not> clientConnected (snd (switchCallback config newClientId LoginFail now st))"
  by (simp_all add: switchCallback_def call_def Let_def)






text \<open>
  Claim C8. \<open>stop\<close> clears the poll interval and the switch timer, whose handles the
  class keeps; the handle of the reconnect timer is kept nowhere, and the timer stays
  pending. Here \<open>start\<close> fails at time 0 and sets the reconnect timer, \<open>stop\<close> is called
  at 1000, and the timer is still pending after it; when it fires at 15000 and the login
  succeeds, the client has been logged in again after \<open>destroy\<close> and the poll interval
  runs.
\<close>

theorem stop_leaves_reconnect_timer:
  "pending (run sampleConfig [(0, Start LoginFail), (1000, Stop)] (newApp sampleConfig 0))
     = [\<lparr>handle = 0, kind = ReconnectFire, delay = 15000, setAt = 0\<rparr>] \<and>
   calls (run sampleConfig
            [(0, Start LoginFail), (1000, Stop), (15000, Fire 0 LoginOk (sampleEnv [] [] 0))]
            (newApp sampleConfig 0))
     = [NewClient, Login ''1000'', Destroy, Login ''1000''] \<and>
   map kind (pending (run sampleConfig
            [(0, Start LoginFail), (1000, Stop), (15000, Fire 0 LoginOk (sampleEnv [] [] 0))]
            (newApp sampleConfig 0)))
     = [PollTick]"
  by (simp add: run_def step_def start_def reconnect_def stop_def fire_def findTimer_def
        reconnectCallback_def onReady_def startActivityTracking_def setTimer_def
        clearTimer_def call_def newApp_def sampleConfig_def backoffTime_def Let_def)

section \<open>The Spotify title\<close>























section \<open>The session and the payload\<close>

lemma updateSession_fields:
  "startTime (updateSession processName appType activity now t) =
     (if processName \<noteq> lastProcessName t \<or> appType \<noteq> lastAppType t then now else startTime t)"
  "lastProcessName (updateSession processName appType activity now t) = processName"
  "lastAppType (updateSession processName appType activity now t) = appType"
  "lastActivity (updateSession processName appType activity now t) = activity"
  "dailyActivityStats (updateSession processName appType activity now t) = dailyActivityStats t"
  by (auto simp: updateSession_def Let_def)

lemma updateSession_single_fields:
  "startTime (updateSession_single processName activity now t) =
     (if processName \<noteq> lastProcessName t then now else startTime t)"
  "lastProcessName (updateSession_single processName activity now t) = processName"
  "lastActivity (updateSession_single processName activity now t) = activity"
  "dailyActivityStats (updateSession_single processName activity now t) = dailyActivityStats t"
  by (auto simp: updateSession_single_def Let_def)

lemma trackActivityTime_fields:
  "startTime (trackActivityTime activity now t) = startTime t"
  "lastProcessName (trackActivityTime activity now t) = lastProcessName t"
  "lastActivity (trackActivityTime activity now t) = lastActivity t"
  "dailySeconds (trackActivityTime activity now t) a =
     (if a = activity then dailySeconds t activity + 10 else dailySeconds t a)"
  by (auto simp: trackActivityTime_def dailySeconds_def Let_def)

lemma trackActivityTime_lastAppType:
  "lastAppType (trackActivityTime activity now t) = lastAppType t"
  by (auto simp: trackActivityTime_def Let_def)

lemma updateSession_dailySeconds:
  "dailySeconds (updateSession processName appType activity now t) a = dailySeconds t a"
  by (simp add: dailySeconds_def updateSession_fields)

lemma updateSession_single_dailySeconds:
  "dailySeconds (updateSession_single processName activity now t) a = dailySeconds t a"
  by (simp add: dailySeconds_def updateSession_single_fields)

lemma getCurrentActivity_tracker:
  assumes "activeWindow env = Some (title, pname)"
    and "classify config (orUnknown pname) (orUnknown title) = (v, appType)"
  shows "snd (getCurrentActivity config env t) =
           trackActivityTime (activityType v) (nowTrack env)
             (updateSession (orUnknown pname) appType (activityType v) (nowReset env) t)"
  using assms by (simp add: getCurrentActivity_def Let_def)

lemma getCurrentActivity_single_tracker:
  assumes "activeWindow env = Some (title, pname)"
  shows "snd (getCurrentActivity_single config env t) =
           updateSession_single (orUnknown pname)
             (activityType (classify_single config (orUnknown pname) (orUnknown title)))
             (nowReset env)
             (trackActivityTime
                (activityType (classify_single config (orUnknown pname) (orUnknown title)))
                (nowTrack env) t)"
  using assms by (simp add: getCurrentActivity_single_def Let_def)

text \<open>
  Claim C1, as amended. On a poll that reads a window, the multi-application program sets
  \<open>startTime\<close> to the current time exactly when the process name or the application
  category differs from the stored \<open>lastProcessName\<close> or \<open>lastAppType\<close>, either one
  alone being enough, and leaves it as it was when both are the same; the two stored
  values are those of this poll afterwards. The application category is the one the
  client id is chosen by, not the activity type. The single-application program sets
  \<open>startTime\<close> to the current time exactly when the process name differs from
  \<open>lastProcessName\<close>; the activity type is stored and resets nothing.
\<close>

theorem startTime_reset:
  assumes w: "activeWindow env = Some (title, pname)"
    and c: "classify config (orUnknown pname) (orUnknown title) = (v, appType)"
  shows "startTime (snd (getCurrentActivity config env t)) =
           (if orUnknown pname \<noteq> lastProcessName t \<or> appType \<noteq> lastAppType t
            then nowReset env else startTime t) \<and>
         lastProcessName (snd (getCurrentActivity config env t)) = orUnknown pname \<and>
         lastAppType (snd (getCurrentActivity config env t)) = appType \<and>
         startTime (snd (getCurrentActivity_single config' env t')) =
           (if orUnknown pname \<noteq> lastProcessName t' then nowReset env else startTime t') \<and>
         lastProcessName (snd (getCurrentActivity_single config' env t')) = orUnknown pname \<and>
         lastActivity (snd (getCurrentActivity_single config' env t')) =
           activityType (classify_single config' (orUnknown pname) (orUnknown title))"
  unfolding getCurrentActivity_tracker [OF w c] getCurrentActivity_single_tracker [OF w]
  by (simp add: updateSession_fields updateSession_single_fields trackActivityTime_fields
        trackActivityTime_lastAppType)

text \<open>
  Three polls of the same Spotify window: with the stored process name and category
  those of the poll, with another category, and with another process name.
\<close>

theorem startTime_reset_witness:
  "startTime (snd (getCurrentActivity sampleConfig
       (sampleEnv ''Song - Artist - Spotify'' ''Spotify'' 21000)
       ((newTracker_multi 0)\<lparr>lastProcessName := ''Spotify'', lastAppType := ''music''\<rparr>))) = 0 \<and>
   startTime (snd (getCurrentActivity sampleConfig
       (sampleEnv ''Song - Artist - Spotify'' ''Spotify'' 21000)
       ((newTracker_multi 0)\<lparr>lastProcessName := ''Spotify'', lastAppType := ''games''\<rparr>))) = 21000 \<and>
   startTime (snd (getCurrentActivity sampleConfig
       (sampleEnv ''Song - Artist - Spotify'' ''Spotify'' 21000)
       ((newTracker_multi 0)\<lparr>lastProcessName := ''Code'', lastAppType := ''music''\<rparr>))) = 21000"
proof -
  let ?env = "sampleEnv ''Song - Artist - Spotify'' ''Spotify'' 21000"
  have c: "classify sampleConfig (orUnknown ''Spotify'') (orUnknown ''Song - Artist - Spotify'')
             = (fst (classify sampleConfig ''Spotify'' ''Song - Artist - Spotify''), ''music'')"
    by code_simp
  have w: "activeWindow ?env = Some (''Song - Artist - Spotify'', ''Spotify'')"
    by (simp add: sampleEnv_def)
  have u: "orUnknown ''Spotify'' = ''Spotify''" by (simp add: orUnknown_def)
  have n: "nowReset ?env = 21000" by (simp add: sampleEnv_def)
  have f: "startTime ((newTracker_multi 0)\<lparr>lastProcessName := p, lastAppType := a\<rparr>) = 0"
    "lastProcessName ((newTracker_multi 0)\<lparr>lastProcessName := p, lastAppType := a\<rparr>) = p"
    "lastAppType ((newTracker_multi 0)\<lparr>lastProcessName := p, lastAppType := a\<rparr>) = a"
    for p a
    by (simp_all add: newTracker_multi_def)
  note r = startTime_reset [OF w c, of _ sampleConfig_single "newTracker 0", THEN conjunct1]
  from r [of "(newTracker_multi 0)\<lparr>lastProcessName := ''Spotify'', lastAppType := ''music''\<rparr>"]
    r [of "(newTracker_multi 0)\<lparr>lastProcessName := ''Spotify'', lastAppType := ''games''\<rparr>"]
    r [of "(newTracker_multi 0)\<lparr>lastProcessName := ''Code'', lastAppType := ''music''\<rparr>"]
  have "?thesis" unfolding u n f by simp
  then
  show ?thesis by simp
qed

text \<open>
  A change of the activity type alone resets nothing. The single-application program,
  two polls of the same process \<open>firefox\<close>: the title goes from \<open>Spotify Web Player\<close>
  to \<open>News\<close>, the activity type from \<open>music\<close> to \<open>browsing\<close>, and the start time is
  not reset at the second poll. The multi-application program, two polls of the same
  process \<open>steam\<close>, whose application category is \<open>games\<close> at both: the title goes
  from \<open>Spotify\<close> to \<open>Store\<close>, the activity type from \<open>music\<close> to \<open>app\<close>, and the
  start time is not reset either.
\<close>

theorem startTime_category_counterexample:
  "lastActivity (snd (getCurrentActivity_single sampleConfig_single
       (sampleEnv ''Spotify Web Player'' ''firefox'' 1000) (newTracker 0))) = ''music'' \<and>
   lastActivity (snd (getCurrentActivity_single sampleConfig_single
       (sampleEnv ''News'' ''firefox'' 11000)
       (snd (getCurrentActivity_single sampleConfig_single
          (sampleEnv ''Spotify Web Player'' ''firefox'' 1000) (newTracker 0))))) = ''browsing'' \<and>
   \<not> (startTime (snd (getCurrentActivity_single sampleConfig_single
       (sampleEnv ''News'' ''firefox'' 11000)
       (snd (getCurrentActivity_single sampleConfig_single
          (sampleEnv ''Spotify Web Player'' ''firefox'' 1000) (newTracker 0))))) = 11000) \<and>
   lastActivity (snd (getCurrentActivity sampleConfig
       (sampleEnv ''Spotify'' ''steam'' 1000) (newTracker_multi 0))) = ''music'' \<and>
   lastAppType (snd (getCurrentActivity sampleConfig
       (sampleEnv ''Spotify'' ''steam'' 1000) (newTracker_multi 0))) = ''games'' \<and>
   lastActivity (snd (getCurrentActivity sampleConfig
       (sampleEnv ''Store'' ''steam'' 11000)
       (snd (getCurrentActivity sampleConfig
          (sampleEnv ''Spotify'' ''steam'' 1000) (newTracker_multi 0))))) = ''app'' \<and>
   lastAppType (snd (getCurrentActivity sampleConfig
       (sampleEnv ''Store'' ''steam'' 11000)
       (snd (getCurrentActivity sampleConfig
          (sampleEnv ''Spotify'' ''steam'' 1000) (newTracker_multi 0))))) = ''games'' \<and>
   \<not> (startTime (snd (getCurrentActivity sampleConfig
       (sampleEnv ''Store'' ''steam'' 11000)
       (snd (getCurrentActivity sampleConfig
          (sampleEnv ''Spotify'' ''steam'' 1000) (newTracker_multi 0))))) = 11000)"
proof -
  let ?e1 = "sampleEnv ''Spotify Web Player'' ''firefox'' 1000"
  let ?e2 = "sampleEnv ''News'' ''firefox'' 11000"
  let ?m1 = "sampleEnv ''Spotify'' ''steam'' 1000"
  let ?m2 = "sampleEnv ''Store'' ''steam'' 11000"
  have w1: "activeWindow ?e1 = Some (''Spotify Web Player'', ''firefox'')"
    and w2: "activeWindow ?e2 = Some (''News'', ''firefox'')"
    and x1: "activeWindow ?m1 = Some (''Spotify'', ''steam'')"
    and x2: "activeWindow ?m2 = Some (''Store'', ''steam'')"
    and n: "nowReset ?e1 = 1000" "nowReset ?e2 = 11000" "nowReset ?m1 = 1000" "nowReset ?m2 = 11000"
    by (simp_all add: sampleEnv_def)
  have a1: "activityType (classify_single sampleConfig_single ''firefox''
              (orUnknown ''Spotify Web Player'')) = ''music''"
    by code_simp
  have a2: "activityType (classify_single sampleConfig_single ''firefox''
              (orUnknown ''News'')) = ''browsing''"
    by code_simp
  have c1: "classify sampleConfig (orUnknown ''steam'') (orUnknown ''Spotify'') =
              (fst (classify sampleConfig ''steam'' ''Spotify''), ''games'')"
    by code_simp
  have c2: "classify sampleConfig (orUnknown ''steam'') (orUnknown ''Store'') =
              (fst (classify sampleConfig ''steam'' ''Store''), ''games'')"
    by code_simp
  have b1: "activityType (fst (classify sampleConfig ''steam'' ''Spotify'')) = ''music''"
    by code_simp
  have b2: "activityType (fst (classify sampleConfig ''steam'' ''Store'')) = ''app''"
    by code_simp
  have u: "orUnknown ''firefox'' = ''firefox''" "orUnknown ''steam'' = ''steam''"
    by (simp_all add: orUnknown_def)
  have t0: "startTime (newTracker 0) = 0" "lastProcessName (newTracker 0) = []"
    "startTime (newTracker_multi 0) = 0" "lastProcessName (newTracker_multi 0) = []"
    "lastAppType (newTracker_multi 0) = []"
    by (simp_all add: newTracker_def newTracker_multi_def)
  have single:
    "lastActivity (snd (getCurrentActivity_single sampleConfig_single ?e1 (newTracker 0))) = ''music'' \<and>
     lastActivity (snd (getCurrentActivity_single sampleConfig_single ?e2
       (snd (getCurrentActivity_single sampleConfig_single ?e1 (newTracker 0))))) = ''browsing'' \<and>
     \<not> (startTime (snd (getCurrentActivity_single sampleConfig_single ?e2
       (snd (getCurrentActivity_single sampleConfig_single ?e1 (newTracker 0))))) = 11000)"
    unfolding getCurrentActivity_single_tracker [OF w2] getCurrentActivity_single_tracker [OF w1]
    by (simp add: updateSession_single_fields trackActivityTime_fields a1 a2 u n t0)
  have multi:
    "lastActivity (snd (getCurrentActivity sampleConfig ?m1 (newTracker_multi 0))) = ''music'' \<and>
     lastAppType (snd (getCurrentActivity sampleConfig ?m1 (newTracker_multi 0))) = ''games'' \<and>
     lastActivity (snd (getCurrentActivity sampleConfig ?m2
       (snd (getCurrentActivity sampleConfig ?m1 (newTracker_multi 0))))) = ''app'' \<and>
     lastAppType (snd (getCurrentActivity sampleConfig ?m2
       (snd (getCurrentActivity sampleConfig ?m1 (newTracker_multi 0))))) = ''games'' \<and>
     \<not> (startTime (snd (getCurrentActivity sampleConfig ?m2
       (snd (getCurrentActivity sampleConfig ?m1 (newTracker_multi 0))))) = 11000)"
    unfolding getCurrentActivity_tracker [OF x2 c2] getCurrentActivity_tracker [OF x1 c1]
    by (simp add: updateSession_fields trackActivityTime_fields trackActivityTime_lastAppType
          b1 b2 u n t0)
  from single multi show ?thesis
    by simp
qed

text \<open>
  Each poll that reads a window adds 10 to the counter of the activity type of that poll
  and leaves every other counter as it was, in both programs and under every
  configuration.
\<close>

lemma getCurrentActivity_dailySeconds:
  assumes "activeWindow env = Some (title, pname)"
    and "classify config (orUnknown pname) (orUnknown title) = (v, appType)"
  shows "dailySeconds (snd (getCurrentActivity config env t)) a =
           (if a = activityType v then dailySeconds t a + 10 else dailySeconds t a)"
  unfolding getCurrentActivity_tracker [OF assms]
  by (simp add: trackActivityTime_fields updateSession_dailySeconds)

lemma getCurrentActivity_single_dailySeconds:
  assumes "activeWindow env = Some (title, pname)"
  shows "dailySeconds (snd (getCurrentActivity_single config env t)) a =
           (if a = activityType (classify_single config (orUnknown pname) (orUnknown title))
            then dailySeconds t a + 10 else dailySeconds t a)"
  unfolding getCurrentActivity_single_tracker [OF assms]
  by (simp add: trackActivityTime_fields updateSession_single_dailySeconds)

text \<open>
  Claim C3. With \<open>updateInterval\<close> set to 5000 milliseconds, two polls of the same
  Spotify window 5 seconds apart bring the counter of \<open>music\<close> from 0 to 10 and then to
  20: the amount added at each poll is the constant 10, not the 5 seconds of the
  configured interval.
\<close>

theorem trackActivityTime_ignores_interval:
  "updateInterval fastConfig = 5000 \<and>
   dailySeconds (snd (getCurrentActivity fastConfig
       (sampleEnv ''Song - Artist - Spotify'' ''Spotify'' 1000) (newTracker_multi 0))) ''music'' = 10 \<and>
   dailySeconds (snd (getCurrentActivity fastConfig
       (sampleEnv ''Song - Artist - Spotify'' ''Spotify'' 6000)
       (snd (getCurrentActivity fastConfig
          (sampleEnv ''Song - Artist - Spotify'' ''Spotify'' 1000) (newTracker_multi 0))))) ''music'' = 20"
proof -
  let ?e1 = "sampleEnv ''Song - Artist - Spotify'' ''Spotify'' 1000"
  let ?e2 = "sampleEnv ''Song - Artist - Spotify'' ''Spotify'' 6000"
  have w1: "activeWindow ?e1 = Some (''Song - Artist - Spotify'', ''Spotify'')"
    and w2: "activeWindow ?e2 = Some (''Song - Artist - Spotify'', ''Spotify'')"
    by (simp_all add: sampleEnv_def)
  have c: "classify fastConfig (orUnknown ''Spotify'') (orUnknown ''Song - Artist - Spotify'')
             = (fst (classify fastConfig ''Spotify'' ''Song - Artist - Spotify''), ''music'')"
    by code_simp
  have a: "activityType (fst (classify fastConfig ''Spotify'' ''Song - Artist - Spotify'')) = ''music''"
    by code_simp
  have i: "updateInterval fastConfig = 5000"
    by (simp add: fastConfig_def)
  have z: "dailySeconds (newTracker_multi 0) ''music'' = 0"
    by (simp add: dailySeconds_def newTracker_multi_def)
  show ?thesis
    unfolding getCurrentActivity_dailySeconds [OF w2 c] getCurrentActivity_dailySeconds [OF w1 c]
    by (simp add: a i z)
qed

subsection \<open>The lengths of the payload's strings\<close>

lemma fallbackActivity_lengths:
  "length (details (fallbackActivity release started)) \<le> 128"
  "length (state (fallbackActivity release started)) \<le> 128"
  by (simp_all add: fallbackActivity_def)

lemma buildActivity_lengths:
  "length (details (buildActivity config v formattedDuration env t)) \<le> 128"
  "length (state (buildActivity config v formattedDuration env t)) \<le> 128"
  by (simp_all add: buildActivity_def substring0_def)

lemma buildActivity_single_lengths:
  "length (details (buildActivity_single v env t)) \<le> 128"
  by (simp add: buildActivity_single_def substring0_def Let_def)

lemma getCurrentActivity_activity:
  assumes "activeWindow env = Some (title, pname)"
    and "classify config (orUnknown pname) (orUnknown title) = (v, appType)"
  shows "fst (fst (getCurrentActivity config env t)) =
           buildActivity config v
             (formatDuration (nowDuration env -
                startTime (updateSession (orUnknown pname) appType (activityType v) (nowReset env) t)))
             env (snd (getCurrentActivity config env t))"
  using assms by (simp add: getCurrentActivity_def Let_def)

text \<open>
  Claim C4, as amended. For every configuration, every window, title and process name
  and every state of the tracker, \<open>details\<close> and \<open>state\<close> of the activity the
  multi-application program builds are at most 128 code units long, and so is \<open>details\<close>
  in the single-application program. (\<open>largeImageText\<close> and \<open>smallImageText\<close> are not
  cut in either program, and the single-application program does not cut the composed
  \<open>state\<close>.)
\<close>

theorem payload_lengths:
  "length (details (fst (fst (getCurrentActivity config env t)))) \<le> 128 \<and>
   length (state (fst (fst (getCurrentActivity config env t)))) \<le> 128 \<and>
   length (details (fst (getCurrentActivity_single config' env t'))) \<le> 128"
proof (cases "activeWindow env")
  case None
  then show ?thesis
    by (simp add: getCurrentActivity_def getCurrentActivity_single_def fallbackActivity_lengths)
next
  case (Some w)
  obtain title pname where w: "w = (title, pname)"
    by (cases w)
  obtain v appType where c: "classify config (orUnknown pname) (orUnknown title) = (v, appType)"
    by (cases "classify config (orUnknown pname) (orUnknown title)")
  from Some w have a: "activeWindow env = Some (title, pname)"
    by simp
  have "length (details (fst (fst (getCurrentActivity config env t)))) \<le> 128"
    and "length (state (fst (fst (getCurrentActivity config env t)))) \<le> 128"
    unfolding getCurrentActivity_activity [OF a c] by (rule buildActivity_lengths)+
  moreover have "length (details (fst (getCurrentActivity_single config' env t'))) \<le> 128"
    using a by (simp add: getCurrentActivity_single_def Let_def buildActivity_single_lengths)
  ultimately show ?thesis
    by simp
qed

text \<open>
  A priority rule whose \<open>type\<close> is 200 code units long: \<open>largeImageText\<close> is that type
  followed by \<open>for 0s\<close>, 207 code units.
\<close>

theorem payload_lengths_counterexample:
  "length (largeImageText (fst (fst (getCurrentActivity longTypeConfig
       (sampleEnv ''Song - Artist - Spotify'' ''Spotify'' 1000) (newTracker_multi 0))))) = 207 \<and>
   \<not> length (largeImageText (fst (fst (getCurrentActivity longTypeConfig
       (sampleEnv ''Song - Artist - Spotify'' ''Spotify'' 1000) (newTracker_multi 0))))) \<le> 128"
proof -
  let ?env = "sampleEnv ''Song - Artist - Spotify'' ''Spotify'' 1000"
  have w: "activeWindow ?env = Some (''Song - Artist - Spotify'', ''Spotify'')"
    and n: "nowReset ?env = 1000" "nowDuration ?env = 1000"
    by (simp_all add: sampleEnv_def)
  have c: "classify longTypeConfig (orUnknown ''Spotify'') (orUnknown ''Song - Artist - Spotify'')
             = (fst (classify longTypeConfig ''Spotify'' ''Song - Artist - Spotify''),
                snd (classify longTypeConfig ''Spotify'' ''Song - Artist - Spotify''))"
    by (simp add: orUnknown_def)
  have a: "length (capitalize
              (activityType (fst (classify longTypeConfig ''Spotify'' ''Song - Artist - Spotify''))))
             = 200"
    by code_simp
  have u: "orUnknown ''Spotify'' = ''Spotify''"
    by (simp add: orUnknown_def)
  have p: "lastProcessName (newTracker_multi 0) = []"
    by (simp add: newTracker_multi_def)
  have d: "formatDuration 0 = ''0s''"
    by code_simp
  have "length (largeImageText (fst (fst (getCurrentActivity longTypeConfig ?env (newTracker_multi 0)))))
          = 207"
    unfolding getCurrentActivity_activity [OF w c]
    by (simp add: buildActivity_def updateSession_fields u n p d a)
  then show ?thesis
    by simp
qed

end
